theory Spec2Isabelle
  imports Main "HOL-Library.Sublist"
begin

text \<open>
  The command handlers of the Wick Editor (\<^verbatim>\<open>src/Editor/EditorCore.jsx\<close>), modelled as
  functions on the state of the editor component. A handler takes the editor and returns
  it changed; what it shows, logs, saves or asks of the engine is appended to a trace.
  What the engine, the export modules and the browser answer is given to the handler as
  a parameter.
\<close>

section \<open>JavaScript values\<close>

text \<open>
  The values the command handlers of \<^verbatim>\<open>EditorCore.jsx\<close> pass around. Numbers are the
  integers together with \<open>NaN\<close> (sizes, frame rates, progress counts); their arithmetic
  is not fixed here but supplied by the record \<open>js\<close> below. An array or an object
  carries its identity (a reference number): \<^verbatim>\<open>===\<close> compares identities, never
  contents.
\<close>

datatype jsval =
    JUndefined
  | JNull
  | JBool bool
  | JNum int
  | JNaN
  | JStr string
  | JArr nat "jsval list"
  | JObj nat

text \<open>\<^verbatim>\<open>a === b\<close>: \<open>NaN\<close> equals nothing, arrays are equal when they are the same array.\<close>

definition strict_eq :: "jsval \<Rightarrow> jsval \<Rightarrow> bool" where
  "strict_eq a b =
     (case a of
        JNaN \<Rightarrow> False
      | JArr r xs \<Rightarrow> (case b of JArr s ys \<Rightarrow> r = s | _ \<Rightarrow> False)
      | _ \<Rightarrow> a = b)"

text \<open>The truthiness a condition \<^verbatim>\<open>if (v)\<close>, \<^verbatim>\<open>!v\<close> or \<^verbatim>\<open>v || w\<close> tests.\<close>

fun truthy :: "jsval \<Rightarrow> bool" where
  "truthy JUndefined = False"
| "truthy JNull = False"
| "truthy (JBool b) = b"
| "truthy (JNum n) = (n \<noteq> 0)"
| "truthy JNaN = False"
| "truthy (JStr s) = (s \<noteq> [])"
| "truthy (JArr r xs) = True"
| "truthy (JObj r) = True"

text \<open>\<^verbatim>\<open>a || b\<close>\<close>

definition js_or :: "jsval \<Rightarrow> jsval \<Rightarrow> jsval" where
  "js_or a b = (if truthy a then a else b)"

text \<open>
  The operators of the language that the handlers apply to values of unknown type:
  string conversion (as in \<^verbatim>\<open>"..." + v\<close>) and the arithmetic operators. They belong
  to the JavaScript runtime and are parameters of the model.
\<close>

record js =
  toString :: "jsval \<Rightarrow> string"
  js_add :: "jsval \<Rightarrow> jsval \<Rightarrow> jsval"
  js_sub :: "jsval \<Rightarrow> jsval \<Rightarrow> jsval"
  js_mul :: "jsval \<Rightarrow> jsval \<Rightarrow> jsval"
  js_div :: "jsval \<Rightarrow> jsval \<Rightarrow> jsval"

text \<open>
  A plain object (an argument object such as \<^verbatim>\<open>newSettings\<close> or \<^verbatim>\<open>args\<close>): its own
  properties in the order \<^verbatim>\<open>Object.keys\<close> lists them. Reading a property the object
  does not have gives \<^verbatim>\<open>undefined\<close>.
\<close>

type_synonym jsobject = "(string \<times> jsval) list"

definition object_keys :: "jsobject \<Rightarrow> string list" where
  "object_keys obj = map fst obj"

definition object_get :: "jsobject \<Rightarrow> string \<Rightarrow> jsval" where
  "object_get obj key = (case map_of obj key of Some v \<Rightarrow> v | None \<Rightarrow> JUndefined)"

text \<open>
  \<^verbatim>\<open>Array.prototype.indexOf\<close>: the first position of the element, \<open>-1\<close> when absent.
  The handlers use it on arrays of strings, which \<^verbatim>\<open>===\<close> compares by their characters.
\<close>

fun indexOf_from :: "'a list \<Rightarrow> 'a \<Rightarrow> int \<Rightarrow> int" where
  "indexOf_from [] x i = - 1"
| "indexOf_from (y # ys) x i = (if y = x then i else indexOf_from ys x (i + 1))"

definition indexOf :: "'a list \<Rightarrow> 'a \<Rightarrow> int" where
  "indexOf xs x = indexOf_from xs x 0"

section \<open>The project, the editor and its effects\<close>

text \<open>
  Modelled from the spec: a tool of the engine, of which this file reads the
  \<^verbatim>\<open>name\<close>.
\<close>

record tool =
  name :: string

text \<open>
  The classes of the engine that the handlers test for with \<^verbatim>\<open>instanceof\<close>, and any
  other class by its name.
\<close>

datatype wick_class = ImageAsset | ClipAsset | SVGAsset | Clip | OtherClass string

text \<open>
  Modelled from the spec: an object of the engine, as far as this file looks at it: its
  classes (its own class and the classes that one extends, the chain \<^verbatim>\<open>instanceof\<close>
  walks), its \<^verbatim>\<open>uuid\<close> and its \<^verbatim>\<open>identifier\<close>.
\<close>

record wick_object =
  classes :: "wick_class list"
  object_uuid :: string
  object_identifier :: jsval

text \<open>
  \<^verbatim>\<open>obj instanceof C\<close>; \<open>None\<close> is the \<^verbatim>\<open>undefined\<close> or \<^verbatim>\<open>null\<close> that stands where
  there is no object.
\<close>

definition instanceof :: "wick_object option \<Rightarrow> wick_class \<Rightarrow> bool" where
  "instanceof obj c = (case obj of None \<Rightarrow> False | Some ob \<Rightarrow> c \<in> set (classes ob))"

text \<open>
  Modelled from the spec: the ``shared mutable project object'' off which the handlers
  ``read a property''. \<open>props\<close> holds its data properties by name (\<^verbatim>\<open>name\<close>,
  \<^verbatim>\<open>width\<close>, \<^verbatim>\<open>height\<close>, \<^verbatim>\<open>backgroundColor\<close>, \<^verbatim>\<open>framerate\<close>, ...), as
  \<^verbatim>\<open>this.project[key]\<close> reads and writes them; \<open>selection\<close> holds the properties of
  \<^verbatim>\<open>project.selection\<close> and \<open>selectedObject\<close> what its
  \<^verbatim>\<open>getSelectedObject()\<close> returns.
\<close>

record project =
  props :: "string \<Rightarrow> jsval"
  activeTool :: tool
  toolSettings :: "string \<Rightarrow> jsval"
  selection :: "string \<Rightarrow> jsval"
  selectedObject :: "wick_object option"

text \<open>A \<^verbatim>\<open>File\<close> of the browser, of which the handlers read the \<^verbatim>\<open>name\<close>.\<close>

record jsfile =
  fileName :: string

text \<open>
  The object that \<^verbatim>\<open>new urlParse(address)\<close> builds, as far as the handlers use it: its
  \<^verbatim>\<open>hostname\<close>, and its \<^verbatim>\<open>href\<close>, the address the object stands for and the one
  \<^verbatim>\<open>fetch\<close> requests when it is handed the object.
\<close>

record url =
  hostname :: string
  href :: string

text \<open>What is handed to \<^verbatim>\<open>saveAs\<close>: a blob an export gave, or a \<^verbatim>\<open>new Blob(parts, {type})\<close>.\<close>

datatype blob = Given jsval | NewBlob "jsval list" "string option"

text \<open>The calls into the engine and into the export and import modules.\<close>

datatype engine_call =
    createImagePathFromAsset "wick_object option" jsval jsval
  | createClipInstanceFromAsset "wick_object option" jsval jsval
  | createSVGInstanceFromAsset "wick_object option" jsval jsval
  | importFile jsfile
  | fromWickFile_file jsfile
  | fromWickFile_blob jsval
  | onError
  | view_prerender
  | view_render
  | previewProject
  | toWickFile
  | createAnimatedGIFFromProject jsval jsval
  | toPNGSequence jsval jsval
  | renderVideo jsval jsval
  | toSVGFile
  | ZIPExport_bundleProject
  | HTMLExport_bundleProject
  | generateAudioFile
  | toWickObjectFile wick_object

text \<open>
  Everything a handler does beyond changing the project is recorded, in order, in a
  trace of events.
\<close>

datatype event =
    Toast string string "bool option"
  | UpdateToast nat string string
  | ProjectDidChange "bool option" string
  | OpenModal string
  | SetState "(string \<times> jsval) list"
  | ShowWaitOverlay
  | HideWaitOverlay
  | ToggleBrushModes bool
  | ResetEditorForLoad
  | ConsoleError "jsval list"
  | ConsoleLog "jsval list"
  | SaveAs blob string
  | Fetch url
  | EngineCall engine_call

text \<open>
  The component: \<^verbatim>\<open>this.project\<close>, \<^verbatim>\<open>this.lastUsedTool\<close> (unset at first), whether
  \<^verbatim>\<open>this._onEyedropperPickedColor\<close> has been installed, and the trace.
\<close>

record editor =
  project :: project
  lastUsedTool :: "tool option"
  eyedropperHandler :: bool
  events :: "event list"

definition emit :: "event \<Rightarrow> editor \<Rightarrow> editor" where
  "emit e ed = ed\<lparr>events := events ed @ [e]\<rparr>"

text \<open>The events a handler added: those of \<open>ed'\<close> after those of \<open>ed\<close>.\<close>

definition new_events :: "editor \<Rightarrow> editor \<Rightarrow> event list" where
  "new_events ed ed' = drop (length (events ed)) (events ed')"

text \<open>
  The handlers call methods of the component that this file does not define, the
  browser's console and \<^verbatim>\<open>saveAs\<close> of the file-saver library, and methods of the
  engine and of the export and import modules. Each call is recorded in the trace with
  its arguments.
\<close>

text \<open>
  Modelled from the spec: \<^verbatim>\<open>this.toast(message, type, options)\<close>, which ``show[s] a
  toast'' and returns its identifier, here the place of the toast in the trace; the
  option is \<^verbatim>\<open>autoClose\<close>, when given.
\<close>

definition toast :: "string \<Rightarrow> string \<Rightarrow> bool option \<Rightarrow> editor \<Rightarrow> nat \<times> editor" where
  "toast msg kind autoClose ed = (length (events ed), emit (Toast msg kind autoClose) ed)"

text \<open>Modelled from the spec: \<^verbatim>\<open>this.updateToast(id, {type, text})\<close>, which changes a toast shown.\<close>

definition updateToast :: "nat \<Rightarrow> string \<Rightarrow> string \<Rightarrow> editor \<Rightarrow> editor" where
  "updateToast toastID kind msg ed = emit (UpdateToast toastID kind msg) ed"

text \<open>
  Modelled from the spec: \<^verbatim>\<open>this.projectDidChange({skipHistory, actionName})\<close>, the change
  notification that ``request[s] a re-render''; \<^verbatim>\<open>skipHistory\<close> is \<open>None\<close> when the
  handler does not give it.
\<close>

definition projectDidChange :: "bool option \<Rightarrow> string \<Rightarrow> editor \<Rightarrow> editor" where
  "projectDidChange skipHistory actionName ed = emit (ProjectDidChange skipHistory actionName) ed"

text \<open>Modelled from the spec: \<^verbatim>\<open>this.openModal(name)\<close>, which ``show[s] a ... modal''.\<close>

definition openModal :: "string \<Rightarrow> editor \<Rightarrow> editor" where
  "openModal modalName ed = emit (OpenModal modalName) ed"

text \<open>Modelled from the spec: \<^verbatim>\<open>this.setState({...})\<close> of the ``UI component''.\<close>

definition setState :: "(string \<times> jsval) list \<Rightarrow> editor \<Rightarrow> editor" where
  "setState st ed = emit (SetState st) ed"

text \<open>Modelled from the spec: \<^verbatim>\<open>this.showWaitOverlay()\<close> of the ``UI component''.\<close>

definition showWaitOverlay :: "editor \<Rightarrow> editor" where
  "showWaitOverlay ed = emit ShowWaitOverlay ed"

text \<open>Modelled from the spec: \<^verbatim>\<open>this.hideWaitOverlay()\<close> of the ``UI component''.\<close>

definition hideWaitOverlay :: "editor \<Rightarrow> editor" where
  "hideWaitOverlay ed = emit HideWaitOverlay ed"

text \<open>Modelled from the spec: \<^verbatim>\<open>this.toggleBrushModes(open)\<close> of the ``UI component''.\<close>

definition toggleBrushModes :: "bool \<Rightarrow> editor \<Rightarrow> editor" where
  "toggleBrushModes b ed = emit (ToggleBrushModes b) ed"

text \<open>Modelled from the spec: \<^verbatim>\<open>this.resetEditorForLoad()\<close> of the ``UI component''.\<close>

definition resetEditorForLoad :: "editor \<Rightarrow> editor" where
  "resetEditorForLoad ed = emit ResetEditorForLoad ed"

text \<open>\<^verbatim>\<open>console.error(...)\<close> and \<^verbatim>\<open>console.log(...)\<close>\<close>

definition console_error :: "jsval list \<Rightarrow> editor \<Rightarrow> editor" where
  "console_error vs ed = emit (ConsoleError vs) ed"

definition console_log :: "jsval list \<Rightarrow> editor \<Rightarrow> editor" where
  "console_log vs ed = emit (ConsoleLog vs) ed"

text \<open>\<^verbatim>\<open>saveAs(blob, filename)\<close>, the ``file download''.\<close>

definition saveAs :: "blob \<Rightarrow> string \<Rightarrow> editor \<Rightarrow> editor" where
  "saveAs b filename ed = emit (SaveAs b filename) ed"

text \<open>
  Modelled from the spec: a method of the engine or of an export or import module, an
  ``opaque collaborator'' to which the handler delegates.
\<close>

definition engine :: "engine_call \<Rightarrow> editor \<Rightarrow> editor" where
  "engine c ed = emit (EngineCall c) ed"

text \<open>
  What the engine and the page answer: the methods of \<^verbatim>\<open>this.project\<close> and
  \<^verbatim>\<open>window.Wick\<close> whose results the handlers branch on or pass along, the canvas
  geometry of \<^verbatim>\<open>paper\<close>, and \<^verbatim>\<open>timeStamp()\<close>. They are parameters of the model.
\<close>

record wick =
  undo :: "project \<Rightarrow> bool \<times> project"
  redo :: "project \<Rightarrow> bool \<times> project"
  selection_clear :: "project \<Rightarrow> project"
  new_Project :: project
  getObjectByUUID :: "string \<Rightarrow> wick_object option"
  canvasPosition :: "jsval \<times> jsval"
  viewToProject :: "jsval \<times> jsval \<Rightarrow> jsval \<times> jsval"
  timeStamp :: jsval

section \<open>Tools\<close>

definition getActiveTool :: "editor \<Rightarrow> tool" where
  "getActiveTool ed = activeTool (project ed)"

text \<open>
  Modelled from the spec: the engine's setter behind \<^verbatim>\<open>this.project.activeTool = newTool\<close>,
  a write ``through its public surface'': the tool of the assigned name becomes the
  active tool.
\<close>

definition set_activeTool :: "string \<Rightarrow> project \<Rightarrow> project" where
  "set_activeTool newTool p = p\<lparr>activeTool := \<lparr>name = newTool\<rparr>\<rparr>"

definition setActiveTool :: "string \<Rightarrow> editor \<Rightarrow> editor" where
  "setActiveTool newTool ed =
     (if newTool \<noteq> name (getActiveTool ed) then
        let ed1 = ed\<lparr>lastUsedTool := Some (getActiveTool ed)\<rparr>;
            ed2 = ed1\<lparr>project := set_activeTool newTool (project ed1)\<rparr>;
            ed3 = ed2\<lparr>eyedropperHandler := True\<rparr>;
            ed4 = toggleBrushModes False ed3
        in projectDidChange None (''Set Active Tool: '' @ newTool) ed4
      else ed)"

section \<open>Undo and redo\<close>

definition undoAction :: "wick \<Rightarrow> editor \<Rightarrow> editor" where
  "undoAction W ed =
     (let (ok, p) = undo W (project ed);
          ed1 = ed\<lparr>project := p\<rparr>
      in if \<not> ok then snd (toast ''Nothing to undo.'' ''warning'' None ed1)
         else projectDidChange (Some True) ''Undo'' ed1)"

definition redoAction :: "wick \<Rightarrow> editor \<Rightarrow> editor" where
  "redoAction W ed =
     (let (ok, p) = redo W (project ed);
          ed1 = ed\<lparr>project := p\<rparr>
      in if \<not> ok then snd (toast ''Nothing to redo.'' ''warning'' None ed1)
         else projectDidChange (Some True) ''Redo'' ed1)"

section \<open>Tool settings\<close>

text \<open>
  Modelled from the spec: \<^verbatim>\<open>project.toolSettings.getSetting(name)\<close>. The tool settings
  are state of the engine that this file ``reads and writes through [the engine's]
  public surface'': a store of values by setting name.
\<close>

definition getSetting :: "string \<Rightarrow> project \<Rightarrow> jsval" where
  "getSetting n p = toolSettings p n"

text \<open>
  Modelled from the spec: \<^verbatim>\<open>project.toolSettings.setSetting(name, value)\<close>, the write
  to that store.
\<close>

definition setSetting :: "string \<Rightarrow> jsval \<Rightarrow> project \<Rightarrow> project" where
  "setSetting n v p = p\<lparr>toolSettings := (toolSettings p)(n := v)\<rparr>"

definition getToolSetting :: "string \<Rightarrow> editor \<Rightarrow> jsval" where
  "getToolSetting n ed = getSetting n (project ed)"

definition setToolSetting :: "js \<Rightarrow> string \<Rightarrow> jsval \<Rightarrow> editor \<Rightarrow> editor" where
  "setToolSetting J n v ed =
     (let ed1 = ed\<lparr>project := setSetting n v (project ed)\<rparr>
      in projectDidChange None (''Change Tool Setting '' @ n @ '':'' @ toString J v) ed1)"

definition changeBrushSize :: "js \<Rightarrow> jsval \<Rightarrow> editor \<Rightarrow> editor" where
  "changeBrushSize J amt ed =
     (let tool = name (activeTool (project ed));
          opt = (if tool = ''brush'' then Some ''brushSize''
                 else if tool = ''eraser'' then Some ''eraserSize''
                 else None)
      in case opt of
           None \<Rightarrow> ed
         | Some option \<Rightarrow>
             let brushSize = getToolSetting option ed;
                 newBrushSize = js_add J brushSize amt
             in setToolSetting J option newBrushSize ed)"

section \<open>Selection attributes\<close>

definition getSelectionAttribute :: "editor \<Rightarrow> string \<Rightarrow> jsval" where
  "getSelectionAttribute ed attributeName =
     (let attribute = selection (project ed) attributeName
      in case attribute of
           JArr r xs \<Rightarrow>
             if length xs = 0 then JUndefined
             else if length xs = 1 then xs ! 0
             else xs ! 0
         | _ \<Rightarrow> attribute)"

section \<open>Project settings\<close>

definition validKeys :: "string list" where
  "validKeys = [''name'', ''width'', ''height'', ''backgroundColor'', ''framerate'']"

text \<open>The body of the \<^verbatim>\<open>forEach\<close>, on the project and the flag \<^verbatim>\<open>updated\<close>.\<close>

definition settings_step :: "jsobject \<Rightarrow> string \<Rightarrow> project \<times> bool \<Rightarrow> project \<times> bool" where
  "settings_step newSettings key s =
     (let (p, updated) = s
      in if indexOf validKeys key = - 1 then (p, updated)
         else let oldVal = props p key
              in if \<not> strict_eq oldVal (object_get newSettings key)
                 then (p\<lparr>props := (props p)(key := object_get newSettings key)\<rparr>, True)
                 else (p, updated))"

definition updateProjectSettings :: "jsobject \<Rightarrow> editor \<Rightarrow> editor" where
  "updateProjectSettings newSettings ed =
     (let (p, updated) =
            fold (settings_step newSettings) (object_keys newSettings) (project ed, False);
          ed1 = ed\<lparr>project := p\<rparr>
      in if updated then projectDidChange None ''Update Project Settings'' ed1 else ed1)"

section \<open>Creating an instance from an asset\<close>

text \<open>
  The drop point: the given position when it is in canvas space, else the position
  relative to the canvas element, mapped by \<^verbatim>\<open>paper.view.viewToProject\<close>.
\<close>

definition dropPoint :: "js \<Rightarrow> wick \<Rightarrow> jsval \<Rightarrow> jsval \<Rightarrow> jsval \<Rightarrow> jsval \<times> jsval" where
  "dropPoint J W x y isCanvasSpace =
     (if truthy isCanvasSpace then (x, y)
      else let cp = canvasPosition W;
               x1 = js_sub J x (fst cp);
               y1 = js_sub J y (snd cp)
           in viewToProject W (x1, y1))"

text \<open>
  Callbacks. When a handler hands a single callback to the engine or to an export or
  import module, the model follows the spec, by which the callback ``fires once,
  eventually, on success or failure'': it runs the callback right after the call, and
  the value the callback receives is a parameter of the handler.
\<close>

text \<open>
  \<^verbatim>\<open>createImageFromAsset(uuid, x, y, isCanvasSpace)\<close>; each creation call is given a
  callback that notifies the change.
\<close>

definition createImageFromAsset ::
  "js \<Rightarrow> wick \<Rightarrow> string \<Rightarrow> jsval \<Rightarrow> jsval \<Rightarrow> jsval \<Rightarrow> editor \<Rightarrow> editor" where
  "createImageFromAsset J W uuid x y isCanvasSpace ed =
     (let dp = dropPoint J W x y isCanvasSpace;
          obj = getObjectByUUID W uuid
      in if instanceof obj ImageAsset then
           projectDidChange None ''Create Image Path From Asset''
             (engine (createImagePathFromAsset (getObjectByUUID W uuid) (fst dp) (snd dp)) ed)
         else if instanceof obj ClipAsset then
           projectDidChange None ''Create Clip Instance From Asset''
             (engine (createClipInstanceFromAsset (getObjectByUUID W uuid) (fst dp) (snd dp)) ed)
         else if instanceof obj SVGAsset then
           projectDidChange None ''Create SVG Instance From Asset''
             (engine (createSVGInstanceFromAsset (getObjectByUUID W uuid) (fst dp) (snd dp)) ed)
         else console_error [JStr ''object is not an ImageAsset or a ClipAsset''] ed)"

section \<open>Import\<close>

text \<open>
  \<^verbatim>\<open>importFileAsAsset(file, callback)\<close>: \<open>callback\<close> is the optional callback of the
  caller, \<open>asset\<close> what the engine's \<^verbatim>\<open>importFile\<close> hands back.
\<close>

definition importFileAsAsset ::
  "jsfile \<Rightarrow> (jsval \<Rightarrow> editor \<Rightarrow> editor) option \<Rightarrow> jsval \<Rightarrow> editor \<Rightarrow> editor" where
  "importFileAsAsset file callback asset ed =
     (let ed1 = engine (importFile file) ed;
          ed2 = (case callback of Some cb \<Rightarrow> cb asset ed1 | None \<Rightarrow> ed1)
      in if strict_eq asset JNull then
           snd (toast (''Could not add files to project: '' @ fileName file) ''error'' None ed2)
         else
           projectDidChange None ''Import File As Asset''
             (snd (toast (''Imported '' @ [CHR 0x22] @ fileName file @ [CHR 0x22] @ '' successfully.'')
                     ''success'' None ed2)))"

text \<open>
  \<^verbatim>\<open>attachErrorHandlers\<close> registers a handler with \<^verbatim>\<open>project.onError\<close>; the
  registration is what is recorded.
\<close>

definition attachErrorHandlers :: "editor \<Rightarrow> editor" where
  "attachErrorHandlers ed = engine onError ed"

definition setupNewProject :: "wick \<Rightarrow> project option \<Rightarrow> editor \<Rightarrow> editor" where
  "setupNewProject W proj ed =
     (let ed1 = resetEditorForLoad ed;
          ed2 = ed1\<lparr>project := (case proj of Some p \<Rightarrow> p | None \<Rightarrow> new_Project W)\<rparr>;
          ed3 = ed2\<lparr>project := selection_clear W (project ed2)\<rparr>;
          ed4 = attachErrorHandlers ed3;
          ed5 = projectDidChange None ''Setup New Project'' ed4;
          ed6 = hideWaitOverlay ed5;
          ed7 = engine view_prerender ed6
      in engine view_render ed7)"

text \<open>\<open>proj\<close> is what the engine's \<^verbatim>\<open>fromWickFile\<close> hands back: a project, or none.\<close>

definition importProjectAsWickFile :: "wick \<Rightarrow> jsfile \<Rightarrow> project option \<Rightarrow> editor \<Rightarrow> editor" where
  "importProjectAsWickFile W file proj ed =
     (let ed1 = showWaitOverlay ed;
          ed2 = engine (fromWickFile_file file) ed1
      in case proj of
           Some p \<Rightarrow>
             snd (toast (''Opened '' @ [CHR 0x22] @ fileName file @ [CHR 0x22] @ '' successfully.'')
                    ''success'' None (setupNewProject W (Some p) ed2))
         | None \<Rightarrow>
             hideWaitOverlay (snd (toast ''Could not open project.'' ''error'' None ed2)))"

section \<open>Opening a project from the URL\<close>

definition whitelist :: "string list" where
  "whitelist = [''wickeditor.com'', ''editor.wickeditor.com'', ''test.wickeditor.com'', ''aka.ms'']"

text \<open>
  How the download ends: \<^verbatim>\<open>fetch\<close> or a later step fails with an error, or it gives a
  blob from which the engine reads a project (or none).
\<close>

datatype download = DownloadFailed jsval | Downloaded jsval "project option"

text \<open>
  \<open>urlParam\<close> is the \<^verbatim>\<open>project\<close> parameter that \<^verbatim>\<open>queryString.parse\<close> finds in the
  query (\<^verbatim>\<open>undefined\<close> when there is none), and \<open>urlParse\<close> the parser of the
  url-parse library, a parameter of the model. The handler tests the host name of the
  parsed object and hands that same object to \<^verbatim>\<open>fetch\<close>.
\<close>

definition tryToParseProjectURL ::
  "wick \<Rightarrow> (jsval \<Rightarrow> url) \<Rightarrow> jsval \<Rightarrow> download \<Rightarrow> editor \<Rightarrow> bool \<times> editor" where
  "tryToParseProjectURL W urlParse urlParam outcome ed =
     (if \<not> truthy urlParam then (False, ed)
      else
        let url = urlParse urlParam
        in if indexOf whitelist (hostname url) = - 1 then
             (False,
              console_error [JStr ''tryToParseProjectURL: URL is not in the whitelist.'']
                (snd (toast (''Could not open project from link! '' @ [CHR 0x0A] @
                             '' URL is not on whitelist.'')
                        ''warning'' None ed)))
           else
             (True,
              let ed1 = emit (Fetch url) ed
              in case outcome of
                   Downloaded b loadedProject \<Rightarrow>
                     setupNewProject W loadedProject (engine (fromWickFile_blob b) ed1)
                 | DownloadFailed e \<Rightarrow>
                     console_error [e]
                       (console_error
                          [JStr ''tryToParseProjectURL: Could not download Wick project.'']
                          (snd (toast ''Could not download project from URL.'' ''warning'' None
                                  ed1)))))"

section \<open>Export\<close>

text \<open>\<open>previewWindow\<close> is what \<^verbatim>\<open>HTMLPreview.previewProject\<close> hands back.\<close>

definition exportProjectToNewWindow :: "jsval \<Rightarrow> editor \<Rightarrow> editor" where
  "exportProjectToNewWindow previewWindow ed =
     (let ed1 = showWaitOverlay ed;
          ed2 = engine previewProject ed1;
          ed3 = hideWaitOverlay ed2
      in if truthy previewWindow then
           snd (toast ''Project preview window opened.'' ''info'' (Some False) ed3)
         else
           snd (toast ''Could not open a preview window. Try disabling your popup blocker!''
                  ''error'' (Some False) ed3))"

text \<open>\<open>file\<close> is what \<^verbatim>\<open>WickFile.toWickFile\<close> hands back.\<close>

definition exportProjectAsWickFile :: "js \<Rightarrow> wick \<Rightarrow> jsval \<Rightarrow> editor \<Rightarrow> editor" where
  "exportProjectAsWickFile J W file ed =
     (let ed1 = showWaitOverlay ed;
          (toastID, ed2) = toast ''Exporting project as a .wick file...'' ''info'' (Some False) ed1;
          ed3 = engine toWickFile ed2
      in if strict_eq file JUndefined then
           hideWaitOverlay (updateToast toastID ''error'' ''Could not export .wick file.'' ed3)
         else
           let ed4 = updateToast toastID ''success'' ''Successfully saved .wick file.'' ed3;
               ed5 = saveAs (Given file)
                       (toString J (js_add J (props (project ed4) ''name'') (timeStamp W)) @ ''.wick'')
                       ed4
           in hideWaitOverlay ed5)"

text \<open>
  What a media export module does with the callbacks it was given: any number of calls
  of \<^verbatim>\<open>onProgress\<close>, \<^verbatim>\<open>onError\<close> and \<^verbatim>\<open>onFinish\<close>, in the order of the list.
\<close>

datatype export_callback = OnProgress jsval jsval | OnError jsval | OnFinish jsval

definition gif_callback :: "js \<Rightarrow> nat \<Rightarrow> jsval \<Rightarrow> export_callback \<Rightarrow> editor \<Rightarrow> editor" where
  "gif_callback J toastID outputName cb ed =
     (case cb of
        OnProgress message progress \<Rightarrow>
          setState [(''renderStatusMessage'', message), (''renderProgress'', progress)] ed
      | OnError message \<Rightarrow>
          console_error [JStr ''Gif Render had an error with message: '', message] ed
      | OnFinish gifBlob \<Rightarrow>
          let ed1 = saveAs (Given gifBlob) (toString J outputName @ ''.gif'') ed;
              ed2 = updateToast toastID ''success'' ''Successfully created .gif file.'' ed1
          in setState [(''renderStatusMessage'', JStr ''Finished exporting GIF.''),
                       (''renderProgress'', JNum 100)] ed2)"

definition exportProjectAsAnimatedGIF ::
  "js \<Rightarrow> jsobject \<Rightarrow> export_callback list \<Rightarrow> editor \<Rightarrow> editor" where
  "exportProjectAsAnimatedGIF J args cbs ed =
     (let ed1 = openModal ''ExportMedia'' ed;
          ed2 = setState [(''renderProgress'', JNum 0), (''renderType'', JStr ''gif''),
                          (''renderStatusMessage'', JStr ''Creating gif.'')] ed1;
          outputName = js_or (object_get args ''name'') (props (project ed2) ''name'');
          (toastID, ed3) = toast ''Exporting animated GIF...'' ''info'' None ed2;
          ed4 = engine (createAnimatedGIFFromProject (object_get args ''width'')
                          (object_get args ''height'')) ed3
      in fold (gif_callback J toastID outputName) cbs ed4)"

text \<open>
  The handler wraps \<^verbatim>\<open>onError\<close> and \<^verbatim>\<open>onFinish\<close>: the wrappers hide the wait overlay
  and call \<^verbatim>\<open>onError()\<close> without the message.
\<close>

definition sequence_callback :: "js \<Rightarrow> nat \<Rightarrow> export_callback \<Rightarrow> editor \<Rightarrow> editor" where
  "sequence_callback J toastID cb ed =
     (case cb of
        OnProgress completed maxFrames \<Rightarrow>
          let message = ''Rendered '' @ toString J completed @ ''/'' @ toString J maxFrames @ '' frames'';
              percentage = js_add J (JNum 10) (js_mul J (JNum 90) (js_div J completed maxFrames))
          in setState [(''renderStatusMessage'', JStr message), (''renderProgress'', percentage)] ed
      | OnError message \<Rightarrow>
          console_error [JStr ''Image Render had an error with message: '', JUndefined]
            (hideWaitOverlay ed)
      | OnFinish file \<Rightarrow>
          let ed1 = hideWaitOverlay ed;
              ed2 = updateToast toastID ''success'' ''Successfully created image sequence.'' ed1;
              ed3 = saveAs (Given file)
                      (toString J (props (project ed2) ''name'') @ ''_imageSequence.zip'') ed2
          in setState [(''exporting'', JBool False)] ed3)"

definition exportProjectAsImageSequence ::
  "js \<Rightarrow> jsobject \<Rightarrow> export_callback list \<Rightarrow> editor \<Rightarrow> editor" where
  "exportProjectAsImageSequence J args cbs ed =
     (let ed1 = openModal ''ExportMedia'' ed;
          ed2 = setState [(''renderProgress'', JNum 0), (''renderType'', JStr ''image sequence''),
                          (''renderStatusMessage'', JStr ''Creating image sequence.''),
                          (''exporting'', JBool True)] ed1;
          (toastID, ed3) = toast ''Exporting image sequence...'' ''info'' None ed2;
          ed4 = engine (toPNGSequence (object_get args ''width'') (object_get args ''height'')) ed3
      in fold (sequence_callback J toastID) cbs ed4)"

text \<open>
  Here too the wrappers hide the wait overlay and call \<^verbatim>\<open>onError()\<close> and
  \<^verbatim>\<open>onFinish()\<close> without the message.
\<close>

definition video_callback :: "nat \<Rightarrow> export_callback \<Rightarrow> editor \<Rightarrow> editor" where
  "video_callback toastID cb ed =
     (case cb of
        OnProgress message progress \<Rightarrow>
          setState [(''renderStatusMessage'', message), (''renderProgress'', progress)] ed
      | OnError message \<Rightarrow>
          console_error [JStr ''Video Render had an error with message: '', JUndefined]
            (hideWaitOverlay ed)
      | OnFinish message \<Rightarrow>
          let ed1 = hideWaitOverlay ed;
              ed2 = updateToast toastID ''success'' ''Successfully created .mp4 file.'' ed1;
              ed3 = console_log [JStr ''Video Render Complete: '', JUndefined] ed2
          in setState [(''exporting'', JBool False)] ed3)"

definition exportProjectAsVideo :: "jsobject \<Rightarrow> export_callback list \<Rightarrow> editor \<Rightarrow> editor" where
  "exportProjectAsVideo args cbs ed =
     (let ed1 = openModal ''ExportMedia'' ed;
          ed2 = setState [(''renderProgress'', JNum 10), (''renderType'', JStr ''video''),
                          (''renderStatusMessage'', JStr ''Creating video.''),
                          (''exporting'', JBool True)] ed1;
          (toastID, ed3) = toast ''Exporting video...'' ''info'' None ed2;
          ed4 = engine (renderVideo (object_get args ''width'') (object_get args ''height'')) ed3
      in fold (video_callback toastID) cbs ed4)"

text \<open>\<^verbatim>\<open>SVGFile.toSVGFile\<close> is given no progress callback, so it can report none.\<close>

definition svg_callback :: "js \<Rightarrow> wick \<Rightarrow> nat \<Rightarrow> export_callback \<Rightarrow> editor \<Rightarrow> editor" where
  "svg_callback J W toastID cb ed =
     (case cb of
        OnProgress message progress \<Rightarrow> ed
      | OnError message \<Rightarrow>
          console_error [JStr ''SVG builder had an error with message: '', message] ed
      | OnFinish file \<Rightarrow>
          let ed1 = hideWaitOverlay ed;
              ed2 = updateToast toastID ''success'' ''Successfully saved .wick file.'' ed1;
              ed3 = saveAs (Given file)
                      (toString J (js_add J (props (project ed2) ''name'') (timeStamp W)) @ ''.svg'')
                      ed2
          in hideWaitOverlay ed3)"

definition exportProjectAsImageSVG :: "js \<Rightarrow> wick \<Rightarrow> export_callback list \<Rightarrow> editor \<Rightarrow> editor" where
  "exportProjectAsImageSVG J W cbs ed =
     (let ed1 = openModal ''ExportMedia'' ed;
          ed2 = setState [(''renderProgress'', JNum 0), (''renderType'', JStr ''svg''),
                          (''renderStatusMessage'', JStr ''Creating svg.'')] ed1;
          (toastID, ed3) = toast ''Exporting svg...'' ''info'' None ed2;
          ed4 = engine toSVGFile ed3
      in fold (svg_callback J W toastID) cbs ed4)"

text \<open>\<open>b\<close> is the blob \<^verbatim>\<open>ZIPExport.bundleProject\<close> hands back.\<close>

definition exportProjectAsStandaloneZip :: "js \<Rightarrow> jsobject \<Rightarrow> jsval \<Rightarrow> editor \<Rightarrow> editor" where
  "exportProjectAsStandaloneZip J args b ed =
     (let (toastID, ed1) = toast ''Exporting project as ZIP...'' ''info'' None ed;
          outputName = js_or (object_get args ''name'') (props (project ed1) ''name'');
          ed2 = engine ZIPExport_bundleProject ed1;
          ed3 = updateToast toastID ''success'' ''Successfully created .zip file.'' ed2
      in saveAs (Given b) (toString J outputName @ ''.zip'') ed3)"

text \<open>\<open>html\<close> is the page \<^verbatim>\<open>HTMLExport.bundleProject\<close> hands back.\<close>

definition exportProjectAsStandaloneHTML :: "js \<Rightarrow> jsobject \<Rightarrow> jsval \<Rightarrow> editor \<Rightarrow> editor" where
  "exportProjectAsStandaloneHTML J args html ed =
     (let (toastID, ed1) = toast ''Exporting project as HTML...'' ''info'' None ed;
          outputName = js_or (object_get args ''name'') (props (project ed1) ''name'');
          ed2 = engine HTMLExport_bundleProject ed1;
          ed3 = updateToast toastID ''success'' ''Successfully created .html file.'' ed2
      in saveAs (NewBlob [html] (Some ''text/plain'')) (toString J outputName @ ''.html'') ed3)"

text \<open>
  \<open>result\<close> is what the promise of \<^verbatim>\<open>AudioExport.generateAudioFile\<close> resolves to; it
  is \<open>None\<close> when the promise is rejected or never settles, and then nothing is saved.
\<close>

definition exportProjectAsAudioTrack :: "jsval option \<Rightarrow> editor \<Rightarrow> editor" where
  "exportProjectAsAudioTrack result ed =
     (let ed1 = engine generateAudioFile ed
      in case result of
           Some r \<Rightarrow> saveAs (NewBlob [r] None) ''audiotrack.wav'' ed1
         | None \<Rightarrow> ed1)"

text \<open>\<open>file\<close> is what \<^verbatim>\<open>WickObjectFile.toWickObjectFile\<close> hands back.\<close>

definition exportSelectedClip :: "js \<Rightarrow> jsval \<Rightarrow> editor \<Rightarrow> editor" where
  "exportSelectedClip J file ed =
     (let clip = selectedObject (project ed)
      in case clip of
           None \<Rightarrow> ed
         | Some c \<Rightarrow>
             if \<not> instanceof clip Clip then ed
             else saveAs (Given file)
                    (toString J (js_or (object_identifier c) (JStr ''object'')) @ ''.wickobj'')
                    (engine (toWickObjectFile c) ed))"

text \<open>
  One value for each way an export handler of the file can be run: the handler, its
  arguments, and what the export hands back.
\<close>

datatype export_request =
    ExportToNewWindow jsval
  | ExportAsWickFile jsval
  | ExportAsAnimatedGIF jsobject "export_callback list"
  | ExportAsImageSequence jsobject "export_callback list"
  | ExportAsVideo jsobject "export_callback list"
  | ExportAsImageSVG "export_callback list"
  | ExportAsStandaloneZip jsobject jsval
  | ExportAsStandaloneHTML jsobject jsval
  | ExportAsAudioTrack "jsval option"
  | ExportSelectedClip jsval

fun run_export :: "js \<Rightarrow> wick \<Rightarrow> export_request \<Rightarrow> editor \<Rightarrow> editor" where
  "run_export J W (ExportToNewWindow previewWindow) ed = exportProjectToNewWindow previewWindow ed"
| "run_export J W (ExportAsWickFile file) ed = exportProjectAsWickFile J W file ed"
| "run_export J W (ExportAsAnimatedGIF args cbs) ed = exportProjectAsAnimatedGIF J args cbs ed"
| "run_export J W (ExportAsImageSequence args cbs) ed = exportProjectAsImageSequence J args cbs ed"
| "run_export J W (ExportAsVideo args cbs) ed = exportProjectAsVideo args cbs ed"
| "run_export J W (ExportAsImageSVG cbs) ed = exportProjectAsImageSVG J W cbs ed"
| "run_export J W (ExportAsStandaloneZip args b) ed = exportProjectAsStandaloneZip J args b ed"
| "run_export J W (ExportAsStandaloneHTML args html) ed = exportProjectAsStandaloneHTML J args html ed"
| "run_export J W (ExportAsAudioTrack result) ed = exportProjectAsAudioTrack result ed"
| "run_export J W (ExportSelectedClip file) ed = exportSelectedClip J file ed"

section \<open>Reading the trace\<close>

fun is_change :: "event \<Rightarrow> bool" where
  "is_change (ProjectDidChange skipHistory actionName) = True"
| "is_change e = False"

fun is_toast :: "event \<Rightarrow> bool" where
  "is_toast (Toast msg kind autoClose) = True"
| "is_toast e = False"

fun is_modal :: "event \<Rightarrow> bool" where
  "is_modal (OpenModal modalName) = True"
| "is_modal e = False"

fun is_success_toast :: "event \<Rightarrow> bool" where
  "is_success_toast (UpdateToast toastID kind msg) = (kind = ''success'')"
| "is_success_toast (Toast msg kind autoClose) = (kind = ''success'')"
| "is_success_toast e = False"

fun is_engine_call :: "event \<Rightarrow> bool" where
  "is_engine_call (EngineCall c) = True"
| "is_engine_call e = False"

fun is_creation :: "event \<Rightarrow> bool" where
  "is_creation (EngineCall (createImagePathFromAsset obj x y)) = True"
| "is_creation (EngineCall (createClipInstanceFromAsset obj x y)) = True"
| "is_creation (EngineCall (createSVGInstanceFromAsset obj x y)) = True"
| "is_creation e = False"

fun is_console_error :: "event \<Rightarrow> bool" where
  "is_console_error (ConsoleError vs) = True"
| "is_console_error e = False"

fun is_fetch :: "event \<Rightarrow> bool" where
  "is_fetch (Fetch u) = True"
| "is_fetch e = False"

fun is_finish :: "export_callback \<Rightarrow> bool" where
  "is_finish (OnFinish v) = True"
| "is_finish cb = False"

text \<open>
  A key of \<open>newSettings\<close> is a valid key whose new value differs from the project's:
  the test of \<^verbatim>\<open>updateProjectSettings\<close>, with \<^verbatim>\<open>!==\<close>.
\<close>

definition differs :: "jsobject \<Rightarrow> project \<Rightarrow> string \<Rightarrow> bool" where
  "differs newSettings p key =
     (key \<in> set validKeys \<and> \<not> strict_eq (props p key) (object_get newSettings key))"

text \<open>The file types of the exports, and the events that save under one of them.\<close>

definition export_extensions :: "string list" where
  "export_extensions =
     [''.wick'', ''.gif'', ''.mp4'', ''.svg'', ''.zip'', ''.html'', ''.wav'', ''.wickobj'']"

definition has_export_extension :: "string \<Rightarrow> bool" where
  "has_export_extension filename = list_ex (\<lambda>ext. suffix ext filename) export_extensions"

fun saves_export_file :: "event \<Rightarrow> bool" where
  "saves_export_file (SaveAs b filename) = has_export_extension filename"
| "saves_export_file e = True"

text \<open>
  The orchestration of an export, read off the events a handler added: a modal was
  opened, the export module was called, and a toast was turned into a success toast.
\<close>

definition orchestrated :: "engine_call \<Rightarrow> event list \<Rightarrow> bool" where
  "orchestrated module_call es =
     (list_ex is_modal es \<and> EngineCall module_call \<in> set es \<and> list_ex is_success_toast es)"

section \<open>Example values\<close>

text \<open>
  A runtime for the examples, defined on the values the examples use: integers add,
  subtract and multiply, strings concatenate and convert to themselves. The other cases
  are filled with \<open>NaN\<close> and \<open>?\<close>, which the examples never reach.
\<close>

definition example_arith :: "(int \<Rightarrow> int \<Rightarrow> int) \<Rightarrow> jsval \<Rightarrow> jsval \<Rightarrow> jsval" where
  "example_arith f a b =
     (case a of
        JNum m \<Rightarrow> (case b of JNum n \<Rightarrow> JNum (f m n) | _ \<Rightarrow> JNaN)
      | _ \<Rightarrow> JNaN)"

definition example_add :: "jsval \<Rightarrow> jsval \<Rightarrow> jsval" where
  "example_add a b =
     (case a of
        JStr s \<Rightarrow> (case b of JStr t \<Rightarrow> JStr (s @ t) | _ \<Rightarrow> JNaN)
      | _ \<Rightarrow> example_arith (\<lambda>m n. m + n) a b)"

definition example_toString :: "jsval \<Rightarrow> string" where
  "example_toString v = (case v of JStr s \<Rightarrow> s | _ \<Rightarrow> ''?'')"

definition example_js :: js where
  "example_js =
     \<lparr>toString = example_toString,
      js_add = example_add,
      js_sub = example_arith (\<lambda>m n. m - n),
      js_mul = example_arith (\<lambda>m n. m * n),
      js_div = (\<lambda>a b. JNaN)\<rparr>"

definition example_project :: project where
  "example_project =
     \<lparr>props = (\<lambda>k. JUndefined)
        (''name'' := JStr ''My Project'', ''width'' := JNum 720, ''height'' := JNum 480,
         ''backgroundColor'' := JStr ''#ffffff'', ''framerate'' := JNum 12,
         ''onionSkinEnabled'' := JBool False),
      activeTool = \<lparr>name = ''cursor''\<rparr>,
      toolSettings = (\<lambda>k. JUndefined)(''brushSize'' := JNum 10, ''eraserSize'' := JNum 4),
      selection = (\<lambda>k. JUndefined)
        (''fillColor'' := JArr 1 [JStr ''#ff0000'', JStr ''#00ff00''],
         ''strokeWidth'' := JArr 2 [JNum 3],
         ''fontFamily'' := JArr 3 [],
         ''selectionType'' := JStr ''path''),
      selectedObject = Some \<lparr>classes = [Clip], object_uuid = ''clip-7'', object_identifier = JNull\<rparr>\<rparr>"

definition example_editor :: editor where
  "example_editor =
     \<lparr>project = example_project, lastUsedTool = None, eyedropperHandler = False, events = []\<rparr>"

definition brush_editor :: editor where
  "brush_editor = example_editor\<lparr>project := example_project\<lparr>activeTool := \<lparr>name = ''brush''\<rparr>\<rparr>\<rparr>"

definition eraser_editor :: editor where
  "eraser_editor = example_editor\<lparr>project := example_project\<lparr>activeTool := \<lparr>name = ''eraser''\<rparr>\<rparr>\<rparr>"

definition example_cache :: "string \<Rightarrow> wick_object option" where
  "example_cache u =
     (if u = ''image-1'' then
        Some \<lparr>classes = [ImageAsset, OtherClass ''FileAsset''], object_uuid = u, object_identifier = JNull\<rparr>
      else if u = ''clip-1'' then
        Some \<lparr>classes = [ClipAsset, OtherClass ''FileAsset''], object_uuid = u, object_identifier = JNull\<rparr>
      else if u = ''svg-1'' then
        Some \<lparr>classes = [SVGAsset, OtherClass ''FileAsset''], object_uuid = u, object_identifier = JNull\<rparr>
      else if u = ''sound-1'' then
        Some \<lparr>classes = [OtherClass ''SoundAsset'', OtherClass ''FileAsset''], object_uuid = u,
              object_identifier = JNull\<rparr>
      else None)"

text \<open>An engine with nothing to undo and one step to redo (which restores a width).\<close>

definition example_wick :: wick where
  "example_wick =
     \<lparr>undo = (\<lambda>p. (False, p)),
      redo = (\<lambda>p. (True, p\<lparr>props := (props p)(''width'' := JNum 1280)\<rparr>)),
      selection_clear = (\<lambda>p. p\<lparr>selection := (\<lambda>k. JUndefined), selectedObject := None\<rparr>),
      new_Project = example_project,
      getObjectByUUID = example_cache,
      canvasPosition = (JNum 10, JNum 20),
      viewToProject = (\<lambda>pt. pt),
      timeStamp = JStr ''_1-1-2020_12-00-00''\<rparr>"

text \<open>An engine with one step to undo and nothing to redo.\<close>

definition undoable_wick :: wick where
  "undoable_wick =
     example_wick\<lparr>undo := (\<lambda>p. (True, p\<lparr>props := (props p)(''width'' := JNum 640)\<rparr>)),
                  redo := (\<lambda>p. (False, p))\<rparr>"

definition example_settings :: jsobject where
  "example_settings =
     [(''name'', JStr ''My Project''), (''width'', JNum 1920), (''zoom'', JNum 2),
      (''framerate'', JNum 12)]"

definition unchanged_settings :: jsobject where
  "unchanged_settings = [(''name'', JStr ''My Project''), (''activeTool'', JStr ''brush'')]"

definition example_file :: jsfile where
  "example_file = \<lparr>fileName = ''drawing.wick''\<rparr>"

text \<open>
  A parser for the examples, defined on the addresses the examples use; as url-parse
  does, it gives the scheme and the host name in lower case.
\<close>

definition example_urlParse :: "jsval \<Rightarrow> url" where
  "example_urlParse u =
     (if u = JStr ''https://editor.wickeditor.com/p.wick'' then
        \<lparr>hostname = ''editor.wickeditor.com'', href = ''https://editor.wickeditor.com/p.wick''\<rparr>
      else if u = JStr ''HTTPS://WickEditor.com/p.wick'' then
        \<lparr>hostname = ''wickeditor.com'', href = ''https://wickeditor.com/p.wick''\<rparr>
      else if u = JStr ''https://example.org/p.wick'' then
        \<lparr>hostname = ''example.org'', href = ''https://example.org/p.wick''\<rparr>
      else \<lparr>hostname = [], href = []\<rparr>)"

definition example_args :: jsobject where
  "example_args = [(''width'', JNum 720), (''height'', JNum 480)]"

section \<open>Properties\<close>

subsection \<open>Selection attributes\<close>

text \<open>
  C1. For every attribute name, \<^verbatim>\<open>getSelectionAttribute\<close> collapses an array-valued
  selection attribute to its first element: it returns \<^verbatim>\<open>undefined\<close> when the array is
  empty, the sole element when the array has one element, and the first element when it
  has two or more, whatever the others are; a value that is not an array is returned
  unchanged.
\<close>

theorem getSelectionAttribute_first_wins:
  "(selection (project ed) n = JArr r [] \<longrightarrow> getSelectionAttribute ed n = JUndefined)
 \<and> (selection (project ed) n = JArr r [x] \<longrightarrow> getSelectionAttribute ed n = x)
 \<and> (selection (project ed) n = JArr r (x # y # ys) \<longrightarrow> getSelectionAttribute ed n = x)
 \<and> ((\<forall>r xs. selection (project ed) n \<noteq> JArr r xs) \<longrightarrow>
        getSelectionAttribute ed n = selection (project ed) n)"
  by (auto simp: getSelectionAttribute_def Let_def split: jsval.splits)

theorem getSelectionAttribute_first_wins_witness:
  "getSelectionAttribute example_editor ''fontFamily'' = JUndefined
 \<and> getSelectionAttribute example_editor ''strokeWidth'' = JNum 3
 \<and> getSelectionAttribute example_editor ''fillColor'' = JStr ''#ff0000''
 \<and> getSelectionAttribute example_editor ''selectionType'' = JStr ''path''
 \<and> getSelectionAttribute example_editor ''opacity'' = JUndefined"
  using getSelectionAttribute_first_wins [of example_editor "''fontFamily''" 3]
    getSelectionAttribute_first_wins [of example_editor "''strokeWidth''" 2 "JNum 3"]
    getSelectionAttribute_first_wins
      [of example_editor "''fillColor''" 1 "JStr ''#ff0000''" "JStr ''#00ff00''" "[]"]
    getSelectionAttribute_first_wins [of example_editor "''selectionType''"]
    getSelectionAttribute_first_wins [of example_editor "''opacity''"]
  by (simp add: example_editor_def example_project_def)

subsection \<open>Project settings\<close>

lemma indexOf_from_absent:
  "0 \<le> i \<Longrightarrow> (indexOf_from xs x i = - 1) = (x \<notin> set xs)"
  by (induction xs arbitrary: i) auto

lemma indexOf_absent: "(indexOf xs x = - 1) = (x \<notin> set xs)"
  by (simp add: indexOf_def indexOf_from_absent)

lemma settings_step_eq:
  "settings_step ns k (p, u) =
     (if differs ns p k then (p\<lparr>props := (props p)(k := object_get ns k)\<rparr>, True) else (p, u))"
  by (simp add: settings_step_def differs_def indexOf_absent Let_def)

lemma fold_settings_step:
  "fold (settings_step ns) ks (p, u) =
     (p\<lparr>props := (\<lambda>k. if k \<in> set ks \<and> differs ns p k then object_get ns k else props p k)\<rparr>,
      u \<or> (\<exists>k \<in> set ks. differs ns p k))"
proof (induction ks arbitrary: p u)
  case Nil
  show ?case by simp
next
  case (Cons k ks)
  show ?case
  proof (cases "differs ns p k")
    case True
    let ?p1 = "p\<lparr>props := (props p)(k := object_get ns k)\<rparr>"
    have d: "j \<noteq> k \<Longrightarrow> differs ns ?p1 j = differs ns p j" for j
      by (simp add: differs_def)
    have "(\<lambda>j. if j \<in> set ks \<and> differs ns ?p1 j then object_get ns j else props ?p1 j)
        = (\<lambda>j. if j \<in> set (k # ks) \<and> differs ns p j then object_get ns j else props p j)"
      using True by (auto simp: d fun_eq_iff)
    then show ?thesis using True by (simp add: settings_step_eq Cons.IH)
  next
    case False
    have "(\<lambda>j. if j \<in> set ks \<and> differs ns p j then object_get ns j else props p j)
        = (\<lambda>j. if j \<in> set (k # ks) \<and> differs ns p j then object_get ns j else props p j)"
      using False by (auto simp: fun_eq_iff)
    then show ?thesis using False by (auto simp add: settings_step_eq Cons.IH)
  qed
qed

lemma ups_project:
  "project (updateProjectSettings ns ed) =
     (project ed)\<lparr>props := (\<lambda>k. if k \<in> set (object_keys ns) \<and> differs ns (project ed) k
                                 then object_get ns k else props (project ed) k)\<rparr>"
  by (simp add: updateProjectSettings_def fold_settings_step projectDidChange_def emit_def Let_def)

lemma ups_events:
  "events (updateProjectSettings ns ed) =
     events ed @ (if \<exists>k \<in> set (object_keys ns). differs ns (project ed) k
                  then [ProjectDidChange None ''Update Project Settings''] else [])"
  by (simp add: updateProjectSettings_def fold_settings_step projectDidChange_def emit_def Let_def)

lemma ups_rest:
  "lastUsedTool (updateProjectSettings ns ed) = lastUsedTool ed
 \<and> eyedropperHandler (updateProjectSettings ns ed) = eyedropperHandler ed"
  by (simp add: updateProjectSettings_def fold_settings_step projectDidChange_def emit_def Let_def)

text \<open>
  C2. \<^verbatim>\<open>updateProjectSettings\<close> is a diff of the settings: for every input object, a
  property of the project outside \<^verbatim>\<open>name\<close>, \<^verbatim>\<open>width\<close>, \<^verbatim>\<open>height\<close>,
  \<^verbatim>\<open>backgroundColor\<close> and \<^verbatim>\<open>framerate\<close> is never written; a property that changed
  is a key of the input whose new value differed (by \<^verbatim>\<open>!==\<close>) from the project's, and
  it now holds the new value, as does every valid key of the input that differed;
  \<^verbatim>\<open>projectDidChange\<close> fires, once, if and only if some valid key of the input
  differed; the other fields of the project and of the editor are unchanged.
\<close>

theorem updateProjectSettings_diff:
  "(\<forall>k. k \<notin> set validKeys \<longrightarrow>
        props (project (updateProjectSettings ns ed)) k = props (project ed) k)
 \<and> (\<forall>k. props (project (updateProjectSettings ns ed)) k \<noteq> props (project ed) k \<longrightarrow>
        k \<in> set (object_keys ns) \<and> \<not> strict_eq (props (project ed) k) (object_get ns k)
      \<and> props (project (updateProjectSettings ns ed)) k = object_get ns k)
 \<and> (\<forall>k \<in> set (object_keys ns). differs ns (project ed) k \<longrightarrow>
        props (project (updateProjectSettings ns ed)) k = object_get ns k)
 \<and> new_events ed (updateProjectSettings ns ed) =
      (if \<exists>k \<in> set (object_keys ns). differs ns (project ed) k
       then [ProjectDidChange None ''Update Project Settings''] else [])
 \<and> project (updateProjectSettings ns ed) =
      (project ed)\<lparr>props := props (project (updateProjectSettings ns ed))\<rparr>
 \<and> lastUsedTool (updateProjectSettings ns ed) = lastUsedTool ed
 \<and> eyedropperHandler (updateProjectSettings ns ed) = eyedropperHandler ed"
proof -
  have a: "\<forall>k. k \<notin> set validKeys \<longrightarrow>
        props (project (updateProjectSettings ns ed)) k = props (project ed) k"
    by (simp add: ups_project differs_def)
  have b: "\<forall>k. props (project (updateProjectSettings ns ed)) k \<noteq> props (project ed) k \<longrightarrow>
        k \<in> set (object_keys ns) \<and> \<not> strict_eq (props (project ed) k) (object_get ns k)
      \<and> props (project (updateProjectSettings ns ed)) k = object_get ns k"
    by (simp add: ups_project differs_def)
  have c: "\<forall>k \<in> set (object_keys ns). differs ns (project ed) k \<longrightarrow>
        props (project (updateProjectSettings ns ed)) k = object_get ns k"
    by (simp add: ups_project)
  have d: "new_events ed (updateProjectSettings ns ed) =
      (if \<exists>k \<in> set (object_keys ns). differs ns (project ed) k
       then [ProjectDidChange None ''Update Project Settings''] else [])"
    by (simp add: ups_events new_events_def)
  have e: "project (updateProjectSettings ns ed) =
      (project ed)\<lparr>props := props (project (updateProjectSettings ns ed))\<rparr>"
    by (simp add: ups_project)
  from a b c d e ups_rest show ?thesis by blast
qed

theorem updateProjectSettings_diff_witness:
  "props (project (updateProjectSettings example_settings example_editor)) ''width'' = JNum 1920
 \<and> props (project (updateProjectSettings example_settings example_editor)) ''zoom'' = JUndefined
 \<and> new_events example_editor (updateProjectSettings example_settings example_editor) =
      [ProjectDidChange None ''Update Project Settings'']
 \<and> props (project (updateProjectSettings unchanged_settings example_editor)) ''activeTool'' = JUndefined
 \<and> new_events example_editor (updateProjectSettings unchanged_settings example_editor) = []"
proof -
  have w: "differs example_settings (project example_editor) ''width''"
    by (simp add: differs_def validKeys_def strict_eq_def object_get_def example_settings_def
        example_editor_def example_project_def)
  have k: "''width'' \<in> set (object_keys example_settings)"
    by (simp add: object_keys_def example_settings_def)
  have n: "\<not> (\<exists>k \<in> set (object_keys unchanged_settings). differs unchanged_settings (project example_editor) k)"
    by (simp add: differs_def validKeys_def strict_eq_def object_get_def object_keys_def
        unchanged_settings_def example_editor_def example_project_def)
  have z: "''zoom'' \<notin> set validKeys" "''activeTool'' \<notin> set validKeys"
    by (simp_all add: validKeys_def)
  have pz: "props (project example_editor) ''zoom'' = JUndefined"
    "props (project example_editor) ''activeTool'' = JUndefined"
    by (simp_all add: example_editor_def example_project_def)
  note t1 = updateProjectSettings_diff [of example_settings example_editor]
  note t2 = updateProjectSettings_diff [of unchanged_settings example_editor]
  have 1: "props (project (updateProjectSettings example_settings example_editor)) ''width'' = JNum 1920"
    using t1 w k by (auto simp: object_get_def example_settings_def)
  have 2: "props (project (updateProjectSettings example_settings example_editor)) ''zoom'' = JUndefined"
    using t1 z pz by auto
  have 3: "new_events example_editor (updateProjectSettings example_settings example_editor) =
      [ProjectDidChange None ''Update Project Settings'']"
    using t1 w k by auto
  have 4: "props (project (updateProjectSettings unchanged_settings example_editor)) ''activeTool'' = JUndefined"
    using t2 z pz by auto
  have 5: "new_events example_editor (updateProjectSettings unchanged_settings example_editor) = []"
    using t2 n by auto
  from 1 2 3 4 5 show ?thesis by blast
qed

subsection \<open>Undo and redo\<close>

text \<open>
  C3. \<^verbatim>\<open>undoAction\<close> and \<^verbatim>\<open>redoAction\<close> turn a failure into a toast and return
  normally: for every project, if \<^verbatim>\<open>project.undo()\<close> (\<^verbatim>\<open>project.redo()\<close>) answers
  false, the handler shows the warning toast ``Nothing to undo.'' (``Nothing to redo.'')
  and nothing else, so no change notification; if it answers true, the handler shows no
  toast and issues exactly one \<^verbatim>\<open>projectDidChange\<close>, with \<^verbatim>\<open>skipHistory\<close> set.
\<close>

theorem undo_redo_toast_or_change:
  "(\<not> fst (undo W (project ed)) \<longrightarrow>
      new_events ed (undoAction W ed) = [Toast ''Nothing to undo.'' ''warning'' None]
    \<and> filter is_change (new_events ed (undoAction W ed)) = [])
 \<and> (fst (undo W (project ed)) \<longrightarrow>
      new_events ed (undoAction W ed) = [ProjectDidChange (Some True) ''Undo'']
    \<and> filter is_toast (new_events ed (undoAction W ed)) = [])
 \<and> (\<not> fst (redo W (project ed)) \<longrightarrow>
      new_events ed (redoAction W ed) = [Toast ''Nothing to redo.'' ''warning'' None]
    \<and> filter is_change (new_events ed (redoAction W ed)) = [])
 \<and> (fst (redo W (project ed)) \<longrightarrow>
      new_events ed (redoAction W ed) = [ProjectDidChange (Some True) ''Redo'']
    \<and> filter is_toast (new_events ed (redoAction W ed)) = [])"
  by (simp add: undoAction_def redoAction_def toast_def projectDidChange_def emit_def
      new_events_def Let_def split: prod.splits)

theorem undo_redo_toast_or_change_witness:
  "new_events example_editor (undoAction example_wick example_editor) =
     [Toast ''Nothing to undo.'' ''warning'' None]
 \<and> new_events example_editor (redoAction example_wick example_editor) =
     [ProjectDidChange (Some True) ''Redo'']
 \<and> new_events example_editor (undoAction undoable_wick example_editor) =
     [ProjectDidChange (Some True) ''Undo'']
 \<and> new_events example_editor (redoAction undoable_wick example_editor) =
     [Toast ''Nothing to redo.'' ''warning'' None]"
  using undo_redo_toast_or_change [of example_wick example_editor]
    undo_redo_toast_or_change [of undoable_wick example_editor]
  by (simp add: example_wick_def undoable_wick_def)

subsection \<open>Creating an instance from an asset\<close>

text \<open>
  C4. \<^verbatim>\<open>createImageFromAsset\<close> dispatches on the class of the cached object as a straight
  conditional, the tests made in the order written: for every uuid, if the object is an
  \<^verbatim>\<open>ImageAsset\<close>, exactly \<^verbatim>\<open>createImagePathFromAsset\<close> is called; else if it is a
  \<^verbatim>\<open>ClipAsset\<close>, exactly \<^verbatim>\<open>createClipInstanceFromAsset\<close>; else if it is an
  \<^verbatim>\<open>SVGAsset\<close>, exactly \<^verbatim>\<open>createSVGInstanceFromAsset\<close>; each with the cached
  object and the drop point, and without a console error. Otherwise no creation call is
  made and the only effect is an error logged to the console. No invocation makes more
  than one creation call.
\<close>

theorem createImageFromAsset_dispatch:
  "(instanceof (getObjectByUUID W uuid) ImageAsset \<longrightarrow>
      filter is_creation (new_events ed (createImageFromAsset J W uuid x y isCanvasSpace ed)) =
        [EngineCall (createImagePathFromAsset (getObjectByUUID W uuid)
           (fst (dropPoint J W x y isCanvasSpace)) (snd (dropPoint J W x y isCanvasSpace)))]
    \<and> filter is_console_error
        (new_events ed (createImageFromAsset J W uuid x y isCanvasSpace ed)) = [])
 \<and> (\<not> instanceof (getObjectByUUID W uuid) ImageAsset
      \<and> instanceof (getObjectByUUID W uuid) ClipAsset \<longrightarrow>
      filter is_creation (new_events ed (createImageFromAsset J W uuid x y isCanvasSpace ed)) =
        [EngineCall (createClipInstanceFromAsset (getObjectByUUID W uuid)
           (fst (dropPoint J W x y isCanvasSpace)) (snd (dropPoint J W x y isCanvasSpace)))]
    \<and> filter is_console_error
        (new_events ed (createImageFromAsset J W uuid x y isCanvasSpace ed)) = [])
 \<and> (\<not> instanceof (getObjectByUUID W uuid) ImageAsset
      \<and> \<not> instanceof (getObjectByUUID W uuid) ClipAsset
      \<and> instanceof (getObjectByUUID W uuid) SVGAsset \<longrightarrow>
      filter is_creation (new_events ed (createImageFromAsset J W uuid x y isCanvasSpace ed)) =
        [EngineCall (createSVGInstanceFromAsset (getObjectByUUID W uuid)
           (fst (dropPoint J W x y isCanvasSpace)) (snd (dropPoint J W x y isCanvasSpace)))]
    \<and> filter is_console_error
        (new_events ed (createImageFromAsset J W uuid x y isCanvasSpace ed)) = [])
 \<and> (\<not> instanceof (getObjectByUUID W uuid) ImageAsset
      \<and> \<not> instanceof (getObjectByUUID W uuid) ClipAsset
      \<and> \<not> instanceof (getObjectByUUID W uuid) SVGAsset \<longrightarrow>
      new_events ed (createImageFromAsset J W uuid x y isCanvasSpace ed) =
        [ConsoleError [JStr ''object is not an ImageAsset or a ClipAsset'']])
 \<and> length (filter is_creation
       (new_events ed (createImageFromAsset J W uuid x y isCanvasSpace ed))) \<le> 1"
  by (simp add: createImageFromAsset_def projectDidChange_def engine_def console_error_def
      emit_def new_events_def Let_def)

theorem createImageFromAsset_dispatch_witness:
  "filter is_creation (new_events example_editor
      (createImageFromAsset example_js example_wick ''image-1'' (JNum 110) (JNum 220) (JBool False)
         example_editor)) =
     [EngineCall (createImagePathFromAsset (example_cache ''image-1'') (JNum 100) (JNum 200))]
 \<and> filter is_creation (new_events example_editor
      (createImageFromAsset example_js example_wick ''clip-1'' (JNum 5) (JNum 6) (JBool True)
         example_editor)) =
     [EngineCall (createClipInstanceFromAsset (example_cache ''clip-1'') (JNum 5) (JNum 6))]
 \<and> filter is_creation (new_events example_editor
      (createImageFromAsset example_js example_wick ''svg-1'' (JNum 5) (JNum 6) (JBool True)
         example_editor)) =
     [EngineCall (createSVGInstanceFromAsset (example_cache ''svg-1'') (JNum 5) (JNum 6))]
 \<and> new_events example_editor
      (createImageFromAsset example_js example_wick ''sound-1'' (JNum 5) (JNum 6) (JBool True)
         example_editor) =
     [ConsoleError [JStr ''object is not an ImageAsset or a ClipAsset'']]
 \<and> new_events example_editor
      (createImageFromAsset example_js example_wick ''nothing'' (JNum 5) (JNum 6) (JBool True)
         example_editor) =
     [ConsoleError [JStr ''object is not an ImageAsset or a ClipAsset'']]"
  using createImageFromAsset_dispatch
      [of example_wick "''image-1''" example_editor example_js "JNum 110" "JNum 220" "JBool False"]
    createImageFromAsset_dispatch
      [of example_wick "''clip-1''" example_editor example_js "JNum 5" "JNum 6" "JBool True"]
    createImageFromAsset_dispatch
      [of example_wick "''svg-1''" example_editor example_js "JNum 5" "JNum 6" "JBool True"]
    createImageFromAsset_dispatch
      [of example_wick "''sound-1''" example_editor example_js "JNum 5" "JNum 6" "JBool True"]
    createImageFromAsset_dispatch
      [of example_wick "''nothing''" example_editor example_js "JNum 5" "JNum 6" "JBool True"]
  by (simp add: instanceof_def dropPoint_def example_wick_def example_cache_def example_js_def
      example_arith_def Let_def)

subsection \<open>Export\<close>

text \<open>
  What an export handler adds to the trace: the events of the handler itself, then
  those of each callback the export module makes.
\<close>

lemma fold_callbacks:
  assumes ext: "\<And>cb ed. events (step cb ed) = events ed @ new_events ed (step cb ed)"
    and same: "\<And>cb ed ed'. project ed' = project ed \<Longrightarrow>
                 new_events ed' (step cb ed') = new_events ed (step cb ed)"
    and proj: "\<And>cb ed. project (step cb ed) = project ed"
    and start: "project ed = project base"
  shows "events (fold step cbs ed) =
           events ed @ concat (map (\<lambda>cb. new_events base (step cb base)) cbs)"
  using start
proof (induction cbs arbitrary: ed)
  case Nil
  show ?case by simp
next
  case (Cons cb cbs)
  have "project (step cb ed) = project base"
    using Cons.prems by (simp add: proj)
  from Cons.IH [OF this] have
    "events (fold step cbs (step cb ed)) =
       events (step cb ed) @ concat (map (\<lambda>cb. new_events base (step cb base)) cbs)" .
  moreover have "events (step cb ed) = events ed @ new_events base (step cb base)"
    using ext [of cb ed] same [OF Cons.prems, of cb] by simp
  ultimately show ?case by simp
qed

lemma gif_callback_events:
  "events (gif_callback J toastID outputName cb ed) =
     events ed @
     (case cb of
        OnProgress message progress \<Rightarrow>
          [SetState [(''renderStatusMessage'', message), (''renderProgress'', progress)]]
      | OnError message \<Rightarrow> [ConsoleError [JStr ''Gif Render had an error with message: '', message]]
      | OnFinish gifBlob \<Rightarrow>
          [SaveAs (Given gifBlob) (toString J outputName @ ''.gif''),
           UpdateToast toastID ''success'' ''Successfully created .gif file.'',
           SetState [(''renderStatusMessage'', JStr ''Finished exporting GIF.''),
                     (''renderProgress'', JNum 100)]])"
  by (cases cb)
     (simp_all add: gif_callback_def setState_def console_error_def saveAs_def updateToast_def
        emit_def Let_def)

lemma gif_callback_project: "project (gif_callback J toastID outputName cb ed) = project ed"
  by (cases cb)
     (simp_all add: gif_callback_def setState_def console_error_def saveAs_def updateToast_def
        emit_def Let_def)

lemma gif_callback_fold:
  assumes "project e = project base"
  shows "events (fold (gif_callback J t out) cbs e) =
           events e @ concat (map (\<lambda>cb. new_events base (gif_callback J t out cb base)) cbs)"
proof -
  have ext: "events (gif_callback J t out cb ed) = events ed @ new_events ed (gif_callback J t out cb ed)"
    for cb ed
    by (simp add: new_events_def gif_callback_events)
  have same: "new_events ed' (gif_callback J t out cb ed') = new_events ed (gif_callback J t out cb ed)"
    if "project ed' = project ed" for cb ed ed'
    using that by (cases cb) (simp_all add: new_events_def gif_callback_events)
  show ?thesis
    by (rule fold_callbacks [OF ext same gif_callback_project assms])
qed

lemma gif_events:
  "new_events ed (exportProjectAsAnimatedGIF J args cbs ed) =
     [OpenModal ''ExportMedia'',
      SetState [(''renderProgress'', JNum 0), (''renderType'', JStr ''gif''),
                (''renderStatusMessage'', JStr ''Creating gif.'')],
      Toast ''Exporting animated GIF...'' ''info'' None,
      EngineCall (createAnimatedGIFFromProject (object_get args ''width'') (object_get args ''height''))]
     @ concat (map (\<lambda>cb. new_events ed
         (gif_callback J (Suc (Suc (length (events ed))))
            (js_or (object_get args ''name'') (props (project ed) ''name'')) cb ed)) cbs)"
  by (simp add: exportProjectAsAnimatedGIF_def gif_callback_fold [where base = ed] new_events_def openModal_def
      setState_def toast_def engine_def emit_def Let_def)

lemma sequence_callback_events:
  "events (sequence_callback J toastID cb ed) =
     events ed @
     (case cb of
        OnProgress completed maxFrames \<Rightarrow>
          [SetState
            [(''renderStatusMessage'',
              JStr (''Rendered '' @ toString J completed @ ''/'' @ toString J maxFrames @ '' frames'')),
             (''renderProgress'',
              js_add J (JNum 10) (js_mul J (JNum 90) (js_div J completed maxFrames)))]]
      | OnError message \<Rightarrow>
          [HideWaitOverlay,
           ConsoleError [JStr ''Image Render had an error with message: '', JUndefined]]
      | OnFinish file \<Rightarrow>
          [HideWaitOverlay,
           UpdateToast toastID ''success'' ''Successfully created image sequence.'',
           SaveAs (Given file) (toString J (props (project ed) ''name'') @ ''_imageSequence.zip''),
           SetState [(''exporting'', JBool False)]])"
  by (cases cb)
     (simp_all add: sequence_callback_def setState_def console_error_def saveAs_def
        updateToast_def hideWaitOverlay_def emit_def Let_def)

lemma sequence_callback_project: "project (sequence_callback J toastID cb ed) = project ed"
  by (cases cb)
     (simp_all add: sequence_callback_def setState_def console_error_def saveAs_def
        updateToast_def hideWaitOverlay_def emit_def Let_def)

lemma sequence_callback_fold:
  assumes "project e = project base"
  shows "events (fold (sequence_callback J t) cbs e) =
           events e @ concat (map (\<lambda>cb. new_events base (sequence_callback J t cb base)) cbs)"
proof -
  have ext: "events (sequence_callback J t cb ed) = events ed @ new_events ed (sequence_callback J t cb ed)"
    for cb ed
    by (simp add: new_events_def sequence_callback_events)
  have same: "new_events ed' (sequence_callback J t cb ed') = new_events ed (sequence_callback J t cb ed)"
    if "project ed' = project ed" for cb ed ed'
    using that by (cases cb) (simp_all add: new_events_def sequence_callback_events)
  show ?thesis
    by (rule fold_callbacks [OF ext same sequence_callback_project assms])
qed

lemma sequence_events:
  "new_events ed (exportProjectAsImageSequence J args cbs ed) =
     [OpenModal ''ExportMedia'',
      SetState [(''renderProgress'', JNum 0), (''renderType'', JStr ''image sequence''),
                (''renderStatusMessage'', JStr ''Creating image sequence.''),
                (''exporting'', JBool True)],
      Toast ''Exporting image sequence...'' ''info'' None,
      EngineCall (toPNGSequence (object_get args ''width'') (object_get args ''height''))]
     @ concat (map (\<lambda>cb. new_events ed
         (sequence_callback J (Suc (Suc (length (events ed)))) cb ed)) cbs)"
  by (simp add: exportProjectAsImageSequence_def sequence_callback_fold [where base = ed] new_events_def openModal_def
      setState_def toast_def engine_def emit_def Let_def)

lemma video_callback_events:
  "events (video_callback toastID cb ed) =
     events ed @
     (case cb of
        OnProgress message progress \<Rightarrow>
          [SetState [(''renderStatusMessage'', message), (''renderProgress'', progress)]]
      | OnError message \<Rightarrow>
          [HideWaitOverlay,
           ConsoleError [JStr ''Video Render had an error with message: '', JUndefined]]
      | OnFinish message \<Rightarrow>
          [HideWaitOverlay,
           UpdateToast toastID ''success'' ''Successfully created .mp4 file.'',
           ConsoleLog [JStr ''Video Render Complete: '', JUndefined],
           SetState [(''exporting'', JBool False)]])"
  by (cases cb)
     (simp_all add: video_callback_def setState_def console_error_def console_log_def
        updateToast_def hideWaitOverlay_def emit_def Let_def)

lemma video_callback_project: "project (video_callback toastID cb ed) = project ed"
  by (cases cb)
     (simp_all add: video_callback_def setState_def console_error_def console_log_def
        updateToast_def hideWaitOverlay_def emit_def Let_def)

lemma video_callback_fold:
  assumes "project e = project base"
  shows "events (fold (video_callback t) cbs e) =
           events e @ concat (map (\<lambda>cb. new_events base (video_callback t cb base)) cbs)"
proof -
  have ext: "events (video_callback t cb ed) = events ed @ new_events ed (video_callback t cb ed)"
    for cb ed
    by (simp add: new_events_def video_callback_events)
  have same: "new_events ed' (video_callback t cb ed') = new_events ed (video_callback t cb ed)"
    if "project ed' = project ed" for cb ed ed'
    using that by (cases cb) (simp_all add: new_events_def video_callback_events)
  show ?thesis
    by (rule fold_callbacks [OF ext same video_callback_project assms])
qed

lemma video_events:
  "new_events ed (exportProjectAsVideo args cbs ed) =
     [OpenModal ''ExportMedia'',
      SetState [(''renderProgress'', JNum 10), (''renderType'', JStr ''video''),
                (''renderStatusMessage'', JStr ''Creating video.''),
                (''exporting'', JBool True)],
      Toast ''Exporting video...'' ''info'' None,
      EngineCall (renderVideo (object_get args ''width'') (object_get args ''height''))]
     @ concat (map (\<lambda>cb. new_events ed
         (video_callback (Suc (Suc (length (events ed)))) cb ed)) cbs)"
  by (simp add: exportProjectAsVideo_def video_callback_fold [where base = ed] new_events_def openModal_def
      setState_def toast_def engine_def emit_def Let_def)

lemma svg_callback_events:
  "events (svg_callback J W toastID cb ed) =
     events ed @
     (case cb of
        OnProgress message progress \<Rightarrow> []
      | OnError message \<Rightarrow>
          [ConsoleError [JStr ''SVG builder had an error with message: '', message]]
      | OnFinish file \<Rightarrow>
          [HideWaitOverlay,
           UpdateToast toastID ''success'' ''Successfully saved .wick file.'',
           SaveAs (Given file)
             (toString J (js_add J (props (project ed) ''name'') (timeStamp W)) @ ''.svg''),
           HideWaitOverlay])"
  by (cases cb)
     (simp_all add: svg_callback_def console_error_def saveAs_def
        updateToast_def hideWaitOverlay_def emit_def Let_def)

lemma svg_callback_project: "project (svg_callback J W toastID cb ed) = project ed"
  by (cases cb)
     (simp_all add: svg_callback_def console_error_def saveAs_def
        updateToast_def hideWaitOverlay_def emit_def Let_def)

lemma svg_callback_fold:
  assumes "project e = project base"
  shows "events (fold (svg_callback J W t) cbs e) =
           events e @ concat (map (\<lambda>cb. new_events base (svg_callback J W t cb base)) cbs)"
proof -
  have ext: "events (svg_callback J W t cb ed) = events ed @ new_events ed (svg_callback J W t cb ed)"
    for cb ed
    by (simp add: new_events_def svg_callback_events)
  have same: "new_events ed' (svg_callback J W t cb ed') = new_events ed (svg_callback J W t cb ed)"
    if "project ed' = project ed" for cb ed ed'
    using that by (cases cb) (simp_all add: new_events_def svg_callback_events)
  show ?thesis
    by (rule fold_callbacks [OF ext same svg_callback_project assms])
qed

lemma svg_events:
  "new_events ed (exportProjectAsImageSVG J W cbs ed) =
     [OpenModal ''ExportMedia'',
      SetState [(''renderProgress'', JNum 0), (''renderType'', JStr ''svg''),
                (''renderStatusMessage'', JStr ''Creating svg.'')],
      Toast ''Exporting svg...'' ''info'' None,
      EngineCall toSVGFile]
     @ concat (map (\<lambda>cb. new_events ed
         (svg_callback J W (Suc (Suc (length (events ed)))) cb ed)) cbs)"
  by (simp add: exportProjectAsImageSVG_def svg_callback_fold [where base = ed] new_events_def openModal_def
      setState_def toast_def engine_def emit_def Let_def)

lemma zip_events:
  "new_events ed (exportProjectAsStandaloneZip J args b ed) =
     [Toast ''Exporting project as ZIP...'' ''info'' None,
      EngineCall ZIPExport_bundleProject,
      UpdateToast (length (events ed)) ''success'' ''Successfully created .zip file.'',
      SaveAs (Given b)
        (toString J (js_or (object_get args ''name'') (props (project ed) ''name'')) @ ''.zip'')]"
  by (simp add: exportProjectAsStandaloneZip_def new_events_def toast_def updateToast_def
      saveAs_def engine_def emit_def Let_def)

lemma html_events:
  "new_events ed (exportProjectAsStandaloneHTML J args html ed) =
     [Toast ''Exporting project as HTML...'' ''info'' None,
      EngineCall HTMLExport_bundleProject,
      UpdateToast (length (events ed)) ''success'' ''Successfully created .html file.'',
      SaveAs (NewBlob [html] (Some ''text/plain''))
        (toString J (js_or (object_get args ''name'') (props (project ed) ''name'')) @ ''.html'')]"
  by (simp add: exportProjectAsStandaloneHTML_def new_events_def toast_def updateToast_def
      saveAs_def engine_def emit_def Let_def)

lemma wickfile_events:
  "new_events ed (exportProjectAsWickFile J W file ed) =
     [ShowWaitOverlay,
      Toast ''Exporting project as a .wick file...'' ''info'' (Some False),
      EngineCall toWickFile] @
     (if strict_eq file JUndefined then
        [UpdateToast (Suc (length (events ed))) ''error'' ''Could not export .wick file.'',
         HideWaitOverlay]
      else
        [UpdateToast (Suc (length (events ed))) ''success'' ''Successfully saved .wick file.'',
         SaveAs (Given file)
           (toString J (js_add J (props (project ed) ''name'') (timeStamp W)) @ ''.wick''),
         HideWaitOverlay])"
  by (simp add: exportProjectAsWickFile_def new_events_def toast_def updateToast_def
      saveAs_def engine_def showWaitOverlay_def hideWaitOverlay_def emit_def Let_def)

lemma audio_events:
  "new_events ed (exportProjectAsAudioTrack result ed) =
     EngineCall generateAudioFile #
     (case result of Some r \<Rightarrow> [SaveAs (NewBlob [r] None) ''audiotrack.wav''] | None \<Rightarrow> [])"
  by (cases result)
     (simp_all add: exportProjectAsAudioTrack_def new_events_def saveAs_def engine_def emit_def
        Let_def)

lemma clip_events:
  "new_events ed (exportSelectedClip J file ed) =
     (case selectedObject (project ed) of
        None \<Rightarrow> []
      | Some c \<Rightarrow>
          if Clip \<in> set (classes c) then
            [EngineCall (toWickObjectFile c),
             SaveAs (Given file)
               (toString J (js_or (object_identifier c) (JStr ''object'')) @ ''.wickobj'')]
          else [])"
  by (cases "selectedObject (project ed)")
     (simp_all add: exportSelectedClip_def instanceof_def new_events_def saveAs_def engine_def
        emit_def Let_def)

lemma window_events:
  "new_events ed (exportProjectToNewWindow previewWindow ed) =
     [ShowWaitOverlay, EngineCall previewProject, HideWaitOverlay,
      if truthy previewWindow then Toast ''Project preview window opened.'' ''info'' (Some False)
      else Toast ''Could not open a preview window. Try disabling your popup blocker!''
             ''error'' (Some False)]"
  by (simp add: exportProjectToNewWindow_def new_events_def toast_def engine_def
      showWaitOverlay_def hideWaitOverlay_def emit_def Let_def)

lemma finish_in_callbacks:
  assumes "\<And>cb. list_ex is_success_toast (f cb) = is_finish cb"
  shows "list_ex is_success_toast (concat (map f cbs)) = list_ex is_finish cbs"
  using assms by (induction cbs) simp_all

lemma success_toasts_of_callbacks:
  assumes "\<And>cb. filter is_success_toast (f cb) = (if is_finish cb then [u] else [])"
  shows "filter is_success_toast (concat (map f cbs)) = replicate (length (filter is_finish cbs)) u"
  using assms by (induction cbs) simp_all

text \<open>
  C5, as amended. The export orchestration is repeated for five formats (animated GIF,
  image sequence, video, SVG, ZIP). The handlers for GIF, image sequence, video and SVG
  open the modal \<^verbatim>\<open>ExportMedia\<close> first, set the render state, show a toast and then
  delegate to their export module: these are the first four events each of them adds,
  in this order, before any callback. What follows comes from the callbacks of the
  module, and among it there is one success toast for each \<^verbatim>\<open>onFinish\<close> and no other:
  the update of the handler's own toast (the third event it added) to a success toast.
  So the orchestration (a modal opened, the module called, a success toast) is complete
  exactly when the module has called \<^verbatim>\<open>onFinish\<close>. The ZIP handler opens no modal: it
  shows a toast, delegates to its module, then turns the toast into a success toast and
  saves the file, and adds nothing else.
\<close>

theorem export_orchestration:
  "(take 4 (new_events ed (exportProjectAsAnimatedGIF J args cbs ed)) =
      [OpenModal ''ExportMedia'',
       SetState [(''renderProgress'', JNum 0), (''renderType'', JStr ''gif''),
                 (''renderStatusMessage'', JStr ''Creating gif.'')],
       Toast ''Exporting animated GIF...'' ''info'' None,
       EngineCall (createAnimatedGIFFromProject (object_get args ''width'')
         (object_get args ''height''))]
    \<and> filter is_success_toast (drop 4 (new_events ed (exportProjectAsAnimatedGIF J args cbs ed))) =
        replicate (length (filter is_finish cbs))
          (UpdateToast (length (events ed) + 2) ''success'' ''Successfully created .gif file.'')
    \<and> orchestrated
        (createAnimatedGIFFromProject (object_get args ''width'') (object_get args ''height''))
        (new_events ed (exportProjectAsAnimatedGIF J args cbs ed)) = list_ex is_finish cbs)
 \<and> (take 4 (new_events ed (exportProjectAsImageSequence J args cbs ed)) =
      [OpenModal ''ExportMedia'',
       SetState [(''renderProgress'', JNum 0), (''renderType'', JStr ''image sequence''),
                 (''renderStatusMessage'', JStr ''Creating image sequence.''),
                 (''exporting'', JBool True)],
       Toast ''Exporting image sequence...'' ''info'' None,
       EngineCall (toPNGSequence (object_get args ''width'') (object_get args ''height''))]
    \<and> filter is_success_toast
        (drop 4 (new_events ed (exportProjectAsImageSequence J args cbs ed))) =
        replicate (length (filter is_finish cbs))
          (UpdateToast (length (events ed) + 2) ''success'' ''Successfully created image sequence.'')
    \<and> orchestrated (toPNGSequence (object_get args ''width'') (object_get args ''height''))
        (new_events ed (exportProjectAsImageSequence J args cbs ed)) = list_ex is_finish cbs)
 \<and> (take 4 (new_events ed (exportProjectAsVideo args cbs ed)) =
      [OpenModal ''ExportMedia'',
       SetState [(''renderProgress'', JNum 10), (''renderType'', JStr ''video''),
                 (''renderStatusMessage'', JStr ''Creating video.''),
                 (''exporting'', JBool True)],
       Toast ''Exporting video...'' ''info'' None,
       EngineCall (renderVideo (object_get args ''width'') (object_get args ''height''))]
    \<and> filter is_success_toast (drop 4 (new_events ed (exportProjectAsVideo args cbs ed))) =
        replicate (length (filter is_finish cbs))
          (UpdateToast (length (events ed) + 2) ''success'' ''Successfully created .mp4 file.'')
    \<and> orchestrated (renderVideo (object_get args ''width'') (object_get args ''height''))
        (new_events ed (exportProjectAsVideo args cbs ed)) = list_ex is_finish cbs)
 \<and> (take 4 (new_events ed (exportProjectAsImageSVG J W cbs ed)) =
      [OpenModal ''ExportMedia'',
       SetState [(''renderProgress'', JNum 0), (''renderType'', JStr ''svg''),
                 (''renderStatusMessage'', JStr ''Creating svg.'')],
       Toast ''Exporting svg...'' ''info'' None,
       EngineCall toSVGFile]
    \<and> filter is_success_toast (drop 4 (new_events ed (exportProjectAsImageSVG J W cbs ed))) =
        replicate (length (filter is_finish cbs))
          (UpdateToast (length (events ed) + 2) ''success'' ''Successfully saved .wick file.'')
    \<and> orchestrated toSVGFile (new_events ed (exportProjectAsImageSVG J W cbs ed)) =
        list_ex is_finish cbs)
 \<and> new_events ed (exportProjectAsStandaloneZip J args b ed) =
      [Toast ''Exporting project as ZIP...'' ''info'' None,
       EngineCall ZIPExport_bundleProject,
       UpdateToast (length (events ed)) ''success'' ''Successfully created .zip file.'',
       SaveAs (Given b)
         (toString J (js_or (object_get args ''name'') (props (project ed) ''name'')) @ ''.zip'')]"
proof -
  have g: "filter is_success_toast (new_events ed (gif_callback J t out cb ed)) =
      (if is_finish cb then [UpdateToast t ''success'' ''Successfully created .gif file.''] else [])"
    for t out cb
    by (cases cb) (simp_all add: new_events_def gif_callback_events)
  have s: "filter is_success_toast (new_events ed (sequence_callback J t cb ed)) =
      (if is_finish cb then [UpdateToast t ''success'' ''Successfully created image sequence.'']
       else [])"
    for t cb
    by (cases cb) (simp_all add: new_events_def sequence_callback_events)
  have v: "filter is_success_toast (new_events ed (video_callback t cb ed)) =
      (if is_finish cb then [UpdateToast t ''success'' ''Successfully created .mp4 file.''] else [])"
    for t cb
    by (cases cb) (simp_all add: new_events_def video_callback_events)
  have x: "filter is_success_toast (new_events ed (svg_callback J W t cb ed)) =
      (if is_finish cb then [UpdateToast t ''success'' ''Successfully saved .wick file.''] else [])"
    for t cb
    by (cases cb) (simp_all add: new_events_def svg_callback_events)
  have g': "list_ex is_success_toast (new_events ed (gif_callback J t out cb ed)) = is_finish cb"
    for t out cb
    by (cases cb) (simp_all add: new_events_def gif_callback_events)
  have s': "list_ex is_success_toast (new_events ed (sequence_callback J t cb ed)) = is_finish cb"
    for t cb
    by (cases cb) (simp_all add: new_events_def sequence_callback_events)
  have v': "list_ex is_success_toast (new_events ed (video_callback t cb ed)) = is_finish cb"
    for t cb
    by (cases cb) (simp_all add: new_events_def video_callback_events)
  have x': "list_ex is_success_toast (new_events ed (svg_callback J W t cb ed)) = is_finish cb"
    for t cb
    by (cases cb) (simp_all add: new_events_def svg_callback_events)
  have 1: "take 4 (new_events ed (exportProjectAsAnimatedGIF J args cbs ed)) =
      [OpenModal ''ExportMedia'',
       SetState [(''renderProgress'', JNum 0), (''renderType'', JStr ''gif''),
                 (''renderStatusMessage'', JStr ''Creating gif.'')],
       Toast ''Exporting animated GIF...'' ''info'' None,
       EngineCall (createAnimatedGIFFromProject (object_get args ''width'')
         (object_get args ''height''))]
    \<and> filter is_success_toast (drop 4 (new_events ed (exportProjectAsAnimatedGIF J args cbs ed))) =
        replicate (length (filter is_finish cbs))
          (UpdateToast (length (events ed) + 2) ''success'' ''Successfully created .gif file.'')
    \<and> orchestrated
        (createAnimatedGIFFromProject (object_get args ''width'') (object_get args ''height''))
        (new_events ed (exportProjectAsAnimatedGIF J args cbs ed)) = list_ex is_finish cbs"
    by (simp add: gif_events orchestrated_def finish_in_callbacks [OF g']
        success_toasts_of_callbacks [OF g])
  have 2: "take 4 (new_events ed (exportProjectAsImageSequence J args cbs ed)) =
      [OpenModal ''ExportMedia'',
       SetState [(''renderProgress'', JNum 0), (''renderType'', JStr ''image sequence''),
                 (''renderStatusMessage'', JStr ''Creating image sequence.''),
                 (''exporting'', JBool True)],
       Toast ''Exporting image sequence...'' ''info'' None,
       EngineCall (toPNGSequence (object_get args ''width'') (object_get args ''height''))]
    \<and> filter is_success_toast
        (drop 4 (new_events ed (exportProjectAsImageSequence J args cbs ed))) =
        replicate (length (filter is_finish cbs))
          (UpdateToast (length (events ed) + 2) ''success'' ''Successfully created image sequence.'')
    \<and> orchestrated (toPNGSequence (object_get args ''width'') (object_get args ''height''))
        (new_events ed (exportProjectAsImageSequence J args cbs ed)) = list_ex is_finish cbs"
    by (simp add: sequence_events orchestrated_def finish_in_callbacks [OF s']
        success_toasts_of_callbacks [OF s])
  have 3: "take 4 (new_events ed (exportProjectAsVideo args cbs ed)) =
      [OpenModal ''ExportMedia'',
       SetState [(''renderProgress'', JNum 10), (''renderType'', JStr ''video''),
                 (''renderStatusMessage'', JStr ''Creating video.''),
                 (''exporting'', JBool True)],
       Toast ''Exporting video...'' ''info'' None,
       EngineCall (renderVideo (object_get args ''width'') (object_get args ''height''))]
    \<and> filter is_success_toast (drop 4 (new_events ed (exportProjectAsVideo args cbs ed))) =
        replicate (length (filter is_finish cbs))
          (UpdateToast (length (events ed) + 2) ''success'' ''Successfully created .mp4 file.'')
    \<and> orchestrated (renderVideo (object_get args ''width'') (object_get args ''height''))
        (new_events ed (exportProjectAsVideo args cbs ed)) = list_ex is_finish cbs"
    by (simp add: video_events orchestrated_def finish_in_callbacks [OF v']
        success_toasts_of_callbacks [OF v])
  have 4: "take 4 (new_events ed (exportProjectAsImageSVG J W cbs ed)) =
      [OpenModal ''ExportMedia'',
       SetState [(''renderProgress'', JNum 0), (''renderType'', JStr ''svg''),
                 (''renderStatusMessage'', JStr ''Creating svg.'')],
       Toast ''Exporting svg...'' ''info'' None,
       EngineCall toSVGFile]
    \<and> filter is_success_toast (drop 4 (new_events ed (exportProjectAsImageSVG J W cbs ed))) =
        replicate (length (filter is_finish cbs))
          (UpdateToast (length (events ed) + 2) ''success'' ''Successfully saved .wick file.'')
    \<and> orchestrated toSVGFile (new_events ed (exportProjectAsImageSVG J W cbs ed)) =
        list_ex is_finish cbs"
    by (simp add: svg_events orchestrated_def finish_in_callbacks [OF x']
        success_toasts_of_callbacks [OF x])
  from 1 2 3 4 zip_events [of ed J args b] show ?thesis by blast
qed

theorem export_orchestration_witness:
  "take 4 (new_events example_editor
     (exportProjectAsAnimatedGIF example_js example_args
        [OnProgress (JStr ''Rendering'') (JNum 50), OnFinish (JObj 5)] example_editor)) =
     [OpenModal ''ExportMedia'',
      SetState [(''renderProgress'', JNum 0), (''renderType'', JStr ''gif''),
                (''renderStatusMessage'', JStr ''Creating gif.'')],
      Toast ''Exporting animated GIF...'' ''info'' None,
      EngineCall (createAnimatedGIFFromProject (JNum 720) (JNum 480))]
 \<and> filter is_success_toast (drop 4 (new_events example_editor
     (exportProjectAsAnimatedGIF example_js example_args
        [OnProgress (JStr ''Rendering'') (JNum 50), OnFinish (JObj 5)] example_editor))) =
     [UpdateToast 2 ''success'' ''Successfully created .gif file.'']
 \<and> orchestrated (createAnimatedGIFFromProject (JNum 720) (JNum 480))
     (new_events example_editor
        (exportProjectAsAnimatedGIF example_js example_args
           [OnProgress (JStr ''Rendering'') (JNum 50), OnFinish (JObj 5)] example_editor))
 \<and> filter is_success_toast (drop 4 (new_events example_editor
     (exportProjectAsVideo example_args [OnError (JStr ''failed'')] example_editor))) = []
 \<and> \<not> orchestrated (renderVideo (JNum 720) (JNum 480))
     (new_events example_editor
        (exportProjectAsVideo example_args [OnError (JStr ''failed'')] example_editor))
 \<and> new_events example_editor
     (exportProjectAsStandaloneZip example_js example_args (JObj 8) example_editor) =
     [Toast ''Exporting project as ZIP...'' ''info'' None,
      EngineCall ZIPExport_bundleProject,
      UpdateToast 0 ''success'' ''Successfully created .zip file.'',
      SaveAs (Given (JObj 8)) ''My Project.zip'']"
  using export_orchestration [of example_editor example_js example_args
      "[OnProgress (JStr ''Rendering'') (JNum 50), OnFinish (JObj 5)]" example_wick "JObj 8"]
    export_orchestration [of example_editor example_js example_args
      "[OnError (JStr ''failed'')]" example_wick "JObj 8"]
  by (simp add: js_or_def object_get_def example_args_def example_editor_def example_project_def
      example_js_def example_toString_def)

text \<open>
  C5 as it was stated, with a modal opened by every one of the five handlers, fails on
  \<^verbatim>\<open>exportProjectAsStandaloneZip\<close>: the whole trace of the handler on the example
  project holds a toast, the call of the module, the success toast and the saved file,
  and no modal. Nor does any other export handler of the file make up for it: the
  handlers for HTML, the \<^verbatim>\<open>.wick\<close> file, the audio track, the selected clip and the
  preview window open no modal either.
\<close>

theorem zip_export_opens_no_modal:
  "new_events example_editor
     (exportProjectAsStandaloneZip example_js example_args (JObj 8) example_editor) =
     [Toast ''Exporting project as ZIP...'' ''info'' None,
      EngineCall ZIPExport_bundleProject,
      UpdateToast 0 ''success'' ''Successfully created .zip file.'',
      SaveAs (Given (JObj 8)) ''My Project.zip'']
 \<and> \<not> orchestrated ZIPExport_bundleProject
     (new_events example_editor
        (exportProjectAsStandaloneZip example_js example_args (JObj 8) example_editor))
 \<and> filter is_modal (new_events example_editor
        (exportProjectAsStandaloneHTML example_js example_args (JStr ''<html></html>'') example_editor)) = []
 \<and> filter is_modal (new_events example_editor
        (exportProjectAsWickFile example_js example_wick (JObj 6) example_editor)) = []
 \<and> filter is_modal (new_events example_editor
        (exportProjectAsAudioTrack (Some (JObj 4)) example_editor)) = []
 \<and> filter is_modal (new_events example_editor
        (exportSelectedClip example_js (JObj 7) example_editor)) = []
 \<and> filter is_modal (new_events example_editor
        (exportProjectToNewWindow (JObj 3) example_editor)) = []"
  unfolding zip_events html_events wickfile_events audio_events clip_events window_events
  by (simp add: orchestrated_def js_or_def object_get_def strict_eq_def example_args_def
      example_editor_def example_project_def example_js_def example_toString_def)

lemma extension_suffix: "ext \<in> set export_extensions \<Longrightarrow> has_export_extension (s @ ext)"
  by (auto simp: has_export_extension_def list_ex_iff suffix_def)

lemma sequence_zip_extension: "has_export_extension (s @ ''_imageSequence.zip'')"
  using extension_suffix [of "''.zip''" "s @ ''_imageSequence''"]
  by (simp add: export_extensions_def)

lemma audiotrack_extension: "has_export_extension ''audiotrack.wav''"
  using extension_suffix [of "''.wav''" "''audiotrack''"]
  by (simp add: export_extensions_def)

lemma gif_saves:
  "\<forall>e \<in> set (new_events ed (exportProjectAsAnimatedGIF J args cbs ed)). saves_export_file e"
proof -
  have "\<forall>e \<in> set (new_events ed (gif_callback J t out cb ed)). saves_export_file e" for t out cb
    by (cases cb)
       (simp_all add: new_events_def gif_callback_events extension_suffix export_extensions_def)
  then show ?thesis by (auto simp: gif_events)
qed

lemma sequence_saves:
  "\<forall>e \<in> set (new_events ed (exportProjectAsImageSequence J args cbs ed)). saves_export_file e"
proof -
  have "\<forall>e \<in> set (new_events ed (sequence_callback J t cb ed)). saves_export_file e" for t cb
    by (cases cb)
       (simp_all add: new_events_def sequence_callback_events sequence_zip_extension)
  then show ?thesis by (auto simp: sequence_events)
qed

lemma video_saves:
  "\<forall>e \<in> set (new_events ed (exportProjectAsVideo args cbs ed)). saves_export_file e"
proof -
  have "\<forall>e \<in> set (new_events ed (video_callback t cb ed)). saves_export_file e" for t cb
    by (cases cb) (simp_all add: new_events_def video_callback_events)
  then show ?thesis by (auto simp: video_events)
qed

lemma svg_saves:
  "\<forall>e \<in> set (new_events ed (exportProjectAsImageSVG J W cbs ed)). saves_export_file e"
proof -
  have "\<forall>e \<in> set (new_events ed (svg_callback J W t cb ed)). saves_export_file e" for t cb
    by (cases cb)
       (simp_all add: new_events_def svg_callback_events extension_suffix export_extensions_def)
  then show ?thesis by (auto simp: svg_events)
qed

text \<open>
  C6. Every file an export handler of this file saves has one of the extensions
  \<^verbatim>\<open>.wick\<close>, \<^verbatim>\<open>.gif\<close>, \<^verbatim>\<open>.mp4\<close>, \<^verbatim>\<open>.svg\<close>, \<^verbatim>\<open>.zip\<close>, \<^verbatim>\<open>.html\<close>,
  \<^verbatim>\<open>.wav\<close>, \<^verbatim>\<open>.wickobj\<close>: whichever export handler runs, with whatever
  arguments, project and answers of the export, every \<^verbatim>\<open>saveAs\<close> it issues is under
  a file name that ends in one of these eight.
\<close>

theorem export_file_extensions:
  "\<forall>e \<in> set (new_events ed (run_export J W request ed)). saves_export_file e"
proof (cases request)
  case (ExportToNewWindow previewWindow)
  then show ?thesis by (simp add: window_events)
next
  case (ExportAsWickFile f)
  then show ?thesis by (simp add: wickfile_events extension_suffix export_extensions_def)
next
  case (ExportAsAnimatedGIF args cbs)
  then show ?thesis using gif_saves by simp
next
  case (ExportAsImageSequence args cbs)
  then show ?thesis using sequence_saves by simp
next
  case (ExportAsVideo args cbs)
  then show ?thesis using video_saves by simp
next
  case (ExportAsImageSVG cbs)
  then show ?thesis using svg_saves by simp
next
  case (ExportAsStandaloneZip args b)
  then show ?thesis by (simp add: zip_events extension_suffix export_extensions_def)
next
  case (ExportAsStandaloneHTML args html)
  then show ?thesis by (simp add: html_events extension_suffix export_extensions_def)
next
  case (ExportAsAudioTrack result)
  then show ?thesis by (cases result) (simp_all add: audio_events audiotrack_extension)
next
  case (ExportSelectedClip f)
  then show ?thesis
    by (cases "selectedObject (project ed)")
       (auto simp: clip_events extension_suffix export_extensions_def)
qed

theorem export_file_extensions_witness:
  "SaveAs (Given (JObj 5)) ''My Project.gif'' \<in>
     set (new_events example_editor
       (run_export example_js example_wick (ExportAsAnimatedGIF example_args [OnFinish (JObj 5)])
          example_editor))
 \<and> saves_export_file (SaveAs (Given (JObj 5)) ''My Project.gif'')
 \<and> SaveAs (Given (JObj 6)) ''My Project_1-1-2020_12-00-00.wick'' \<in>
     set (new_events example_editor
       (run_export example_js example_wick (ExportAsWickFile (JObj 6)) example_editor))
 \<and> saves_export_file (SaveAs (Given (JObj 6)) ''My Project_1-1-2020_12-00-00.wick'')
 \<and> SaveAs (Given (JObj 7)) ''object.wickobj'' \<in>
     set (new_events example_editor
       (run_export example_js example_wick (ExportSelectedClip (JObj 7)) example_editor))
 \<and> saves_export_file (SaveAs (Given (JObj 7)) ''object.wickobj'')"
proof -
  have g: "SaveAs (Given (JObj 5)) ''My Project.gif'' \<in>
     set (new_events example_editor
       (run_export example_js example_wick (ExportAsAnimatedGIF example_args [OnFinish (JObj 5)])
          example_editor))"
    unfolding run_export.simps gif_events
    by (simp add: gif_callback_events new_events_def js_or_def object_get_def
        example_args_def example_editor_def example_project_def example_js_def
        example_toString_def)
  have w: "SaveAs (Given (JObj 6)) ''My Project_1-1-2020_12-00-00.wick'' \<in>
     set (new_events example_editor
       (run_export example_js example_wick (ExportAsWickFile (JObj 6)) example_editor))"
    unfolding run_export.simps wickfile_events
    by (simp add: strict_eq_def example_editor_def example_project_def
        example_js_def example_wick_def example_add_def example_toString_def)
  have c: "SaveAs (Given (JObj 7)) ''object.wickobj'' \<in>
     set (new_events example_editor
       (run_export example_js example_wick (ExportSelectedClip (JObj 7)) example_editor))"
    unfolding run_export.simps clip_events
    by (simp add: js_or_def example_editor_def example_project_def example_js_def
        example_toString_def)
  from g w c
    export_file_extensions [of example_editor example_js example_wick
      "ExportAsAnimatedGIF example_args [OnFinish (JObj 5)]"]
    export_file_extensions [of example_editor example_js example_wick "ExportAsWickFile (JObj 6)"]
    export_file_extensions [of example_editor example_js example_wick "ExportSelectedClip (JObj 7)"]
  show ?thesis by blast
qed

subsection \<open>Import\<close>

text \<open>
  C7. An import that fails ends in a message and nothing else: for every file, when the
  engine hands \<^verbatim>\<open>importProjectAsWickFile\<close> no project, the handler shows the error toast
  ``Could not open project.'' and hides the wait overlay, the project staying as it
  was; when the engine hands \<^verbatim>\<open>importFileAsAsset\<close> the asset \<^verbatim>\<open>null\<close>, the handler
  shows the error toast ``Could not add files to project: '' with the name of the file
  and makes no change notification (with a callback of the caller, the toast is all the
  handler adds after the callback). Both handlers return normally, and the engine is
  called once: nothing is retried.
\<close>

theorem import_failures_swallowed:
  "new_events ed (importProjectAsWickFile W file None ed) =
     [ShowWaitOverlay, EngineCall (fromWickFile_file file),
      Toast ''Could not open project.'' ''error'' None, HideWaitOverlay]
 \<and> project (importProjectAsWickFile W file None ed) = project ed
 \<and> new_events ed (importFileAsAsset file None JNull ed) =
     [EngineCall (importFile file),
      Toast (''Could not add files to project: '' @ fileName file) ''error'' None]
 \<and> project (importFileAsAsset file None JNull ed) = project ed
 \<and> new_events (cb JNull (engine (importFile file) ed))
       (importFileAsAsset file (Some cb) JNull ed) =
     [Toast (''Could not add files to project: '' @ fileName file) ''error'' None]
 \<and> filter is_change (new_events ed (importProjectAsWickFile W file None ed)) = []
 \<and> filter is_change (new_events ed (importFileAsAsset file None JNull ed)) = []
 \<and> length (filter is_engine_call (new_events ed (importProjectAsWickFile W file None ed))) = 1
 \<and> length (filter is_engine_call (new_events ed (importFileAsAsset file None JNull ed))) = 1"
  by (simp add: importProjectAsWickFile_def importFileAsAsset_def strict_eq_def toast_def
      showWaitOverlay_def hideWaitOverlay_def engine_def emit_def new_events_def Let_def)

theorem import_failures_swallowed_witness:
  "new_events example_editor (importProjectAsWickFile example_wick example_file None example_editor) =
     [ShowWaitOverlay, EngineCall (fromWickFile_file example_file),
      Toast ''Could not open project.'' ''error'' None, HideWaitOverlay]
 \<and> new_events example_editor (importFileAsAsset example_file None JNull example_editor) =
     [EngineCall (importFile example_file),
      Toast ''Could not add files to project: drawing.wick'' ''error'' None]"
  using import_failures_swallowed [of example_editor example_wick example_file]
  by (simp add: example_file_def)

subsection \<open>Opening a project from the URL\<close>

lemma setupNewProject_events:
  "events (setupNewProject W proj ed) =
     events ed @ [ResetEditorForLoad, EngineCall onError, ProjectDidChange None ''Setup New Project'',
                  HideWaitOverlay, EngineCall view_prerender, EngineCall view_render]"
  by (simp add: setupNewProject_def resetEditorForLoad_def attachErrorHandlers_def
      projectDidChange_def hideWaitOverlay_def engine_def emit_def Let_def)

text \<open>
  C8. \<^verbatim>\<open>tryToParseProjectURL\<close> fetches a project from a whitelisted host only: for
  every query and every parser, it returns false and does nothing when there is no
  \<^verbatim>\<open>project\<close> parameter (none, or an empty one); it returns false, with a warning
  toast and a console error and without fetching, when the host name of the parsed
  parameter is not one of \<^verbatim>\<open>wickeditor.com\<close>, \<^verbatim>\<open>editor.wickeditor.com\<close>,
  \<^verbatim>\<open>test.wickeditor.com\<close>, \<^verbatim>\<open>aka.ms\<close>; it returns true exactly when there is a
  parameter whose parsed host name is one of the four; and it fetches exactly when it
  returns true, once, the parsed object whose host name it tested.
\<close>

theorem tryToParseProjectURL_whitelist:
  "(\<not> truthy urlParam \<longrightarrow> tryToParseProjectURL W urlParse urlParam outcome ed = (False, ed))
 \<and> (truthy urlParam \<and> hostname (urlParse urlParam) \<notin>
        {''wickeditor.com'', ''editor.wickeditor.com'', ''test.wickeditor.com'', ''aka.ms''} \<longrightarrow>
      \<not> fst (tryToParseProjectURL W urlParse urlParam outcome ed)
    \<and> new_events ed (snd (tryToParseProjectURL W urlParse urlParam outcome ed)) =
        [Toast (''Could not open project from link! '' @ [CHR 0x0A] @ '' URL is not on whitelist.'')
           ''warning'' None,
         ConsoleError [JStr ''tryToParseProjectURL: URL is not in the whitelist.'']])
 \<and> (fst (tryToParseProjectURL W urlParse urlParam outcome ed) \<longleftrightarrow>
      truthy urlParam \<and> hostname (urlParse urlParam) \<in>
        {''wickeditor.com'', ''editor.wickeditor.com'', ''test.wickeditor.com'', ''aka.ms''})
 \<and> filter is_fetch (new_events ed (snd (tryToParseProjectURL W urlParse urlParam outcome ed))) =
      (if fst (tryToParseProjectURL W urlParse urlParam outcome ed)
       then [Fetch (urlParse urlParam)] else [])"
  by (cases outcome)
     (simp_all add: tryToParseProjectURL_def indexOf_absent whitelist_def setupNewProject_events
        toast_def console_error_def engine_def emit_def new_events_def Let_def)

theorem tryToParseProjectURL_whitelist_witness:
  "tryToParseProjectURL example_wick example_urlParse JUndefined (DownloadFailed JNull)
     example_editor = (False, example_editor)
 \<and> \<not> fst (tryToParseProjectURL example_wick example_urlParse (JStr ''https://example.org/p.wick'')
        (Downloaded (JObj 9) None) example_editor)
 \<and> filter is_fetch (new_events example_editor
      (snd (tryToParseProjectURL example_wick example_urlParse (JStr ''https://example.org/p.wick'')
        (Downloaded (JObj 9) None) example_editor))) = []
 \<and> fst (tryToParseProjectURL example_wick example_urlParse
      (JStr ''https://editor.wickeditor.com/p.wick'') (Downloaded (JObj 9) None) example_editor)
 \<and> filter is_fetch (new_events example_editor
      (snd (tryToParseProjectURL example_wick example_urlParse
        (JStr ''https://editor.wickeditor.com/p.wick'') (Downloaded (JObj 9) None)
        example_editor))) =
     [Fetch \<lparr>hostname = ''editor.wickeditor.com'',
             href = ''https://editor.wickeditor.com/p.wick''\<rparr>]
 \<and> fst (tryToParseProjectURL example_wick example_urlParse
      (JStr ''HTTPS://WickEditor.com/p.wick'') (DownloadFailed JNull) example_editor)
 \<and> filter is_fetch (new_events example_editor
      (snd (tryToParseProjectURL example_wick example_urlParse
        (JStr ''HTTPS://WickEditor.com/p.wick'') (DownloadFailed JNull) example_editor))) =
     [Fetch \<lparr>hostname = ''wickeditor.com'', href = ''https://wickeditor.com/p.wick''\<rparr>]"
  using tryToParseProjectURL_whitelist
      [of JUndefined example_wick example_urlParse "DownloadFailed JNull" example_editor]
    tryToParseProjectURL_whitelist
      [of "JStr ''https://example.org/p.wick''" example_wick example_urlParse
          "Downloaded (JObj 9) None" example_editor]
    tryToParseProjectURL_whitelist
      [of "JStr ''https://editor.wickeditor.com/p.wick''" example_wick example_urlParse
          "Downloaded (JObj 9) None" example_editor]
    tryToParseProjectURL_whitelist
      [of "JStr ''HTTPS://WickEditor.com/p.wick''" example_wick example_urlParse
          "DownloadFailed JNull" example_editor]
  by (simp add: example_urlParse_def)

subsection \<open>Brush size\<close>

text \<open>
  C9. \<^verbatim>\<open>changeBrushSize\<close> changes at most one tool setting: for every amount, if the
  active tool is neither the brush nor the eraser, the editor is returned as it was (no
  setting modified, no change notification); if it is the brush (the eraser), the
  project changes only in its tool settings, and there only \<^verbatim>\<open>brushSize\<close>
  (\<^verbatim>\<open>eraserSize\<close>) is updated, to its previous value \<^verbatim>\<open>+\<close> the amount; the change is
  notified once.
\<close>

theorem changeBrushSize_one_setting:
  "(name (activeTool (project ed)) \<noteq> ''brush'' \<and> name (activeTool (project ed)) \<noteq> ''eraser'' \<longrightarrow>
      changeBrushSize J amt ed = ed)
 \<and> (name (activeTool (project ed)) = ''brush'' \<longrightarrow>
      project (changeBrushSize J amt ed) =
        (project ed)\<lparr>toolSettings := (toolSettings (project ed))
           (''brushSize'' := js_add J (toolSettings (project ed) ''brushSize'') amt)\<rparr>
    \<and> length (filter is_change (new_events ed (changeBrushSize J amt ed))) = 1)
 \<and> (name (activeTool (project ed)) = ''eraser'' \<longrightarrow>
      project (changeBrushSize J amt ed) =
        (project ed)\<lparr>toolSettings := (toolSettings (project ed))
           (''eraserSize'' := js_add J (toolSettings (project ed) ''eraserSize'') amt)\<rparr>
    \<and> length (filter is_change (new_events ed (changeBrushSize J amt ed))) = 1)"
  by (simp add: changeBrushSize_def setToolSetting_def getToolSetting_def getSetting_def
      setSetting_def projectDidChange_def emit_def new_events_def Let_def)

theorem changeBrushSize_one_setting_witness:
  "changeBrushSize example_js (JNum 2) example_editor = example_editor
 \<and> toolSettings (project (changeBrushSize example_js (JNum 2) brush_editor)) ''brushSize'' = JNum 12
 \<and> toolSettings (project (changeBrushSize example_js (JNum 2) brush_editor)) ''eraserSize'' = JNum 4
 \<and> toolSettings (project (changeBrushSize example_js (JNum (- 1)) eraser_editor)) ''eraserSize'' = JNum 3
 \<and> toolSettings (project (changeBrushSize example_js (JNum (- 1)) eraser_editor)) ''brushSize'' = JNum 10"
  using changeBrushSize_one_setting [of example_editor example_js "JNum 2"]
    changeBrushSize_one_setting [of brush_editor example_js "JNum 2"]
    changeBrushSize_one_setting [of eraser_editor example_js "JNum (- 1)"]
  by (simp add: example_editor_def brush_editor_def eraser_editor_def example_project_def
      example_js_def example_add_def example_arith_def)

subsection \<open>Switching the tool\<close>

text \<open>
  C10. \<^verbatim>\<open>setActiveTool\<close> does nothing when the requested tool is already active: if
  \<open>newTool\<close> is the name of the active tool, the editor (the project with its active
  tool, \<^verbatim>\<open>lastUsedTool\<close>, everything else, and the trace) is unchanged, so no change
  notification fires. Otherwise \<^verbatim>\<open>lastUsedTool\<close> becomes the tool that was active, the
  active tool of the project becomes the tool named \<open>newTool\<close> while the rest of the
  project stays, and exactly one change notification fires (after the brush modes
  popup was closed).
\<close>

theorem setActiveTool_noop_or_switch:
  "(newTool = name (getActiveTool ed) \<longrightarrow> setActiveTool newTool ed = ed)
 \<and> (newTool \<noteq> name (getActiveTool ed) \<longrightarrow>
      lastUsedTool (setActiveTool newTool ed) = Some (getActiveTool ed)
    \<and> name (getActiveTool (setActiveTool newTool ed)) = newTool
    \<and> project (setActiveTool newTool ed) = (project ed)\<lparr>activeTool := \<lparr>name = newTool\<rparr>\<rparr>
    \<and> new_events ed (setActiveTool newTool ed) =
        [ToggleBrushModes False, ProjectDidChange None (''Set Active Tool: '' @ newTool)]
    \<and> length (filter is_change (new_events ed (setActiveTool newTool ed))) = 1)"
  by (simp add: setActiveTool_def getActiveTool_def set_activeTool_def toggleBrushModes_def
      projectDidChange_def emit_def new_events_def Let_def)

theorem setActiveTool_noop_or_switch_witness:
  "setActiveTool ''cursor'' example_editor = example_editor
 \<and> lastUsedTool (setActiveTool ''brush'' example_editor) = Some \<lparr>name = ''cursor''\<rparr>
 \<and> name (getActiveTool (setActiveTool ''brush'' example_editor)) = ''brush''
 \<and> new_events example_editor (setActiveTool ''brush'' example_editor) =
      [ToggleBrushModes False, ProjectDidChange None ''Set Active Tool: brush'']"
  using setActiveTool_noop_or_switch [of "''cursor''" example_editor]
    setActiveTool_noop_or_switch [of "''brush''" example_editor]
  by (simp add: example_editor_def example_project_def getActiveTool_def)

end
